theory Spec2Isabelle
  imports Main "HOL-Library.AList"
begin

section \<open>The RouterOS client of src/utils/mikrotik-api.ts\<close>

text \<open>
  The file holds three classes: \<open>RouterOSAPI\<close> (a WebSocket session with tagged commands),
  \<open>RouterOSHTTPAPI\<close> (a stateless REST client) and \<open>MikroTikAPIManager\<close> (tries the first, then
  the second). Each method is embedded as a function on an explicit state. What the
  JavaScript runtime keeps for the object (the promises made by \<open>sendCommand\<close>, the timers
  armed with \<open>setTimeout\<close>, the frames handed to \<open>ws.send\<close>, the sockets closed) is part of that
  state, since the claims are about when a promise settles and when a timer finds its tag.

  Conventions. A JavaScript \<open>number\<close> that counts (\<open>tagCounter\<close>, a port, an HTTP status) is a
  \<open>nat\<close>, and \<open>++\<close> on the counter is written out with its rounding at \<open>2^53\<close>. A string is a
  \<open>string\<close>. \<open>JSON.parse\<close> is not embedded: an inbound frame is given by what \<open>JSON.parse\<close>
  makes of it, \<open>None\<close> when it throws.
\<close>

subsection \<open>Values, replies, errors, promises\<close>

datatype jsval =
  JUndefined | JNull | JBool bool | JNum int | JStr string
  | JArray "jsval list" | JObject "(string \<times> jsval) list"

datatype rtype = Data | Done | Trap | Fatal

record RouterOSCommand =
  command :: string
  arguments :: "(string \<times> string) list option"

record RouterOSResponse =
  rtype :: rtype
  tag :: "string option"
  data :: jsval
  message :: "string option"

text \<open>An exception value: its \<open>name\<close> and its \<open>message\<close>.\<close>

datatype js_error = JsError string string

definition Error :: "string \<Rightarrow> js_error" where
  "Error m = JsError ''Error'' m"

text \<open>\<open>`${error}`\<close>, that is \<open>Error.prototype.toString\<close>.\<close>

fun error_to_string :: "js_error \<Rightarrow> string" where
  "error_to_string (JsError n m) =
     (if n = [] then m else if m = [] then n else n @ '': '' @ m)"

text \<open>A settled promise. A promise in the store is \<open>None\<close> while it is pending.\<close>

datatype 'a settled = Resolved 'a | Rejected js_error

subsection \<open>Decimal rendering of a number in a template string\<close>

definition digit_char :: "nat \<Rightarrow> char" where
  "digit_char d = ''0123456789'' ! d"

function show_nat :: "nat \<Rightarrow> string" where
  "show_nat n = (if n < 10 then [digit_char n] else show_nat (n div 10) @ [digit_char (n mod 10)])"
  by pat_completeness auto
termination
  by (relation "measure id") auto

declare show_nat.simps [simp del]

text \<open>
  \<open>++\<close> on a number that holds a natural number: exact below \<open>2^53\<close>; at \<open>2^53\<close> the sum
  \<open>2^53 + 1\<close> is not a double and rounds back to \<open>2^53\<close>. A counter that starts at 0 stays
  at most \<open>2^53\<close>.
\<close>

definition js_incr :: "nat \<Rightarrow> nat" where
  "js_incr n = (if n < 2 ^ 53 then Suc n else n)"

text \<open>\<open>`tag${n}`\<close>\<close>

definition tag_of :: "nat \<Rightarrow> string" where
  "tag_of n = ''tag'' @ show_nat n"

subsection \<open>The session: class RouterOSAPI and what the runtime keeps for it\<close>

datatype ready_state = CONNECTING | OPEN | CLOSING | CLOSED

text \<open>
  \<open>ws\<close> is the socket, named by its URL (\<open>None\<close> is \<open>null\<close>), and \<open>readyState\<close> is the
  \<open>readyState\<close> of that socket (it says nothing when \<open>ws\<close> is \<open>null\<close>). \<open>callbacks\<close> is the
  \<open>Map\<close> from tag to callback, in insertion order; the callback stored by \<open>sendCommand\<close> is the closure
  over \<open>resolve\<close> and \<open>reject\<close> of the promise it made, so the entry holds that promise's
  number. \<open>promises\<close> is the store of the promises made by \<open>sendCommand\<close>, \<open>timers\<close> the armed
  30 second timers (tag and promise of the closure), \<open>sent\<close> the frames given to \<open>ws.send\<close>,
  \<open>closed\<close> the sockets on which \<open>close()\<close> was called.
\<close>

record session =
  ws :: "string option"
  readyState :: ready_state
  connected :: bool
  host :: string
  username :: string
  password :: string
  port :: nat
  callbacks :: "(string \<times> nat) list"
  tagCounter :: nat
  promises :: "RouterOSResponse settled option list"
  timers :: "(string \<times> nat) list"
  sent :: "(string \<times> string) list list"
  closed :: "string list"

text \<open>\<open>new RouterOSAPI()\<close>\<close>

definition new_session :: session where
  "new_session = \<lparr> ws = None, readyState = CLOSED, connected = False, host = [],
     username = [], password = [],
     port = 8728, callbacks = [], tagCounter = 0, promises = [], timers = [], sent = [],
     closed = [] \<rparr>"

text \<open>\<open>resolve(v)\<close> or \<open>reject(e)\<close> on promise \<open>p\<close>: the first call settles it, later ones do nothing.\<close>

definition settle :: "session \<Rightarrow> nat \<Rightarrow> RouterOSResponse settled \<Rightarrow> session" where
  "settle s p v =
     (if p < length (promises s) \<and> promises s ! p = None
      then s\<lparr>promises := (promises s)[p := Some v]\<rparr> else s)"

text \<open>\<open>response.tag || ''\<close> and \<open>response.message || 'Command failed'\<close>\<close>

definition tag_or_empty :: "RouterOSResponse \<Rightarrow> string" where
  "tag_or_empty r = (case tag r of None \<Rightarrow> [] | Some t \<Rightarrow> t)"

definition message_or_default :: "RouterOSResponse \<Rightarrow> string" where
  "message_or_default r =
     (case message r of None \<Rightarrow> ''Command failed''
      | Some m \<Rightarrow> if m = [] then ''Command failed'' else m)"

text \<open>The callback that \<open>sendCommand\<close> stores (lines 128-134), for promise \<open>p\<close>.\<close>

definition callback :: "session \<Rightarrow> nat \<Rightarrow> RouterOSResponse \<Rightarrow> session" where
  "callback s p r =
     (if rtype r = Done then settle s p (Resolved r)
      else if rtype r = Trap \<or> rtype r = Fatal
        then settle s p (Rejected (Error (message_or_default r)))
      else s)"

text \<open>The frame \<open>{command, tag, ...command.arguments}\<close>: a later key overwrites an earlier one.\<close>

definition wire_message :: "RouterOSCommand \<Rightarrow> string \<Rightarrow> (string \<times> string) list" where
  "wire_message c t =
     foldl (\<lambda>m (k, v). AList.update k v m) [(''command'', command c), (''tag'', t)]
       (case arguments c of None \<Rightarrow> [] | Some args \<Rightarrow> args)"

text \<open>
  \<open>ws.send\<close> throws this exception when the socket is still in the state \<open>CONNECTING\<close>, and
  in no other state (a frame given to a closing or closed socket is dropped silently).
\<close>

definition invalid_state :: js_error where
  "invalid_state = JsError ''InvalidStateError'' ''Still in CONNECTING state''"

text \<open>
  \<open>sendCommand\<close> (lines 113-146). It returns the new promise, here its number. The callback
  is stored at line 128, before \<open>ws.send\<close> at line 136, and the timer is armed after it, at
  line 139: when \<open>ws.send\<close> throws, the executor of the promise ends there, the promise is
  rejected with the exception, the callback stays stored and no timer is armed.
\<close>

definition sendCommand :: "session \<Rightarrow> RouterOSCommand \<Rightarrow> nat \<times> session" where
  "sendCommand s c =
     (let p = length (promises s);
          s0 = s\<lparr>promises := promises s @ [None]\<rparr>
      in if ws s = None \<or> \<not> connected s
         then (p, settle s0 p (Rejected (Error ''Not connected to RouterOS'')))
         else
           let n = js_incr (tagCounter s); t = tag_of n;
               s1 = s0\<lparr>tagCounter := n, callbacks := AList.update t p (callbacks s)\<rparr>
           in if readyState s = CONNECTING
              then (p, settle s1 p (Rejected invalid_state))
              else (p, s1\<lparr>sent := sent s @ [wire_message c t],
                          timers := timers s @ [(t, p)]\<rparr>))"

text \<open>\<open>handleMessage\<close> (lines 98-111); the argument is the result of \<open>JSON.parse\<close>.\<close>

definition handleMessage :: "session \<Rightarrow> RouterOSResponse option \<Rightarrow> session" where
  "handleMessage s parsed =
     (case parsed of
        None \<Rightarrow> s
      | Some r \<Rightarrow>
          (case map_of (callbacks s) (tag_or_empty r) of
             None \<Rightarrow> s
           | Some p \<Rightarrow>
               let s1 = callback s p r
               in if rtype r = Done \<or> rtype r = Trap \<or> rtype r = Fatal
                  then s1\<lparr>callbacks := AList.delete (tag_or_empty r) (callbacks s1)\<rparr>
                  else s1))"

text \<open>
  The oldest timer armed at lines 139-144 for tag \<open>t\<close> fires. A timer fires once, so it is
  no longer armed afterwards.
\<close>

definition timeout :: "session \<Rightarrow> string \<Rightarrow> session" where
  "timeout s t =
     (case map_of (timers s) t of
        None \<Rightarrow> s
      | Some p \<Rightarrow>
          let s1 = s\<lparr>timers := remove1 (t, p) (timers s)\<rparr>
          in if map_of (callbacks s1) t \<noteq> None
             then settle (s1\<lparr>callbacks := AList.delete t (callbacks s1)\<rparr>) p
                    (Rejected (Error ''Command timeout''))
             else s1)"

text \<open>\<open>disconnect\<close> (lines 212-219)\<close>

definition disconnect :: "session \<Rightarrow> session" where
  "disconnect s =
     (let s1 = (case ws s of
                  Some u \<Rightarrow> s\<lparr>closed := closed s @ [u], ws := None\<rparr>
                | None \<Rightarrow> s)
      in s1\<lparr>connected := False, callbacks := []\<rparr>)"

text \<open>
  The \<open>close\<close> event of the socket, with the handler \<open>ws.onclose\<close> (lines 64-66), and
  \<open>isConnected\<close> (lines 221-223)
\<close>

definition onclose :: "session \<Rightarrow> session" where
  "onclose s = s\<lparr>connected := False, readyState := CLOSED\<rparr>"

definition isConnected :: "session \<Rightarrow> bool" where
  "isConnected s = connected s"

subsection \<open>Event sequences on one session\<close>

datatype event =
  Send RouterOSCommand
  | Message "RouterOSResponse option"
  | Timer string
  | Disconnect
  | Close

fun step :: "session \<Rightarrow> event \<Rightarrow> session" where
  "step s (Send c) = snd (sendCommand s c)"
| "step s (Message parsed) = handleMessage s parsed"
| "step s (Timer t) = timeout s t"
| "step s Disconnect = disconnect s"
| "step s Close = onclose s"

definition run :: "session \<Rightarrow> event list \<Rightarrow> session" where
  "run s evs = foldl step s evs"

definition terminal :: "RouterOSResponse \<Rightarrow> bool" where
  "terminal r = (rtype r = Done \<or> rtype r = Trap \<or> rtype r = Fatal)"

text \<open>The tags of \<open>before\<close> that are no longer keys of \<open>after\<close>.\<close>

definition removed :: "(string \<times> nat) list \<Rightarrow> (string \<times> nat) list \<Rightarrow> string list" where
  "removed before after = filter (\<lambda>t. map_of after t = None) (map fst before)"

text \<open>The retirements of a run: each tag that leaves the pending set, with the event that removed it.\<close>

fun retirements :: "session \<Rightarrow> event list \<Rightarrow> (string \<times> event) list" where
  "retirements s [] = []"
| "retirements s (e # es) =
     map (\<lambda>t. (t, e)) (removed (callbacks s) (callbacks (step s e))) @ retirements (step s e) es"

text \<open>The tags allocated while the counter went from \<open>a\<close> to \<open>b\<close>.\<close>

definition tags_between :: "nat \<Rightarrow> nat \<Rightarrow> string list" where
  "tags_between a b = map tag_of [Suc a..<Suc b]"

text \<open>
  The tags allocated by the commands of a run whose frame the socket refused, because it was
  still connecting.
\<close>

fun thrown :: "session \<Rightarrow> event list \<Rightarrow> string list" where
  "thrown s [] = []"
| "thrown s (e # es) =
     (case e of
        Send c \<Rightarrow>
          if ws s \<noteq> None \<and> connected s \<and> readyState s = CONNECTING
          then [tag_of (js_incr (tagCounter s))] else []
      | _ \<Rightarrow> []) @ thrown (step s e) es"

text \<open>
  What every method keeps: the pending tags are pairwise different and were allocated by
  the counter.
\<close>

definition session_ok :: "session \<Rightarrow> bool" where
  "session_ok s =
     (distinct (map fst (callbacks s)) \<and>
      set (map fst (callbacks s)) \<subseteq> set (tags_between 0 (tagCounter s)))"

subsection \<open>Awaiting a command, and the typed operations of RouterOSAPI\<close>

text \<open>The state of promise \<open>p\<close>: \<open>None\<close> while it is pending.\<close>

definition promise_state :: "session \<Rightarrow> nat \<Rightarrow> RouterOSResponse settled option" where
  "promise_state s p = (if p < length (promises s) then promises s ! p else None)"

text \<open>The tag of the armed timer whose closure rejects promise \<open>p\<close>.\<close>

definition timer_of :: "session \<Rightarrow> nat \<Rightarrow> string option" where
  "timer_of s p = map_option fst (find (\<lambda>(t, q). q = p) (timers s))"

text \<open>
  \<open>await\<close> on promise \<open>p\<close> in the case that nothing else touches the session: the socket delivers the
  frames \<open>msgs\<close> in order until the promise settles; if they run out first, the next thing to
  happen is the promise's timer. The result is \<open>None\<close> when the promise never settles.
\<close>

fun deliver_until_settled :: "session \<Rightarrow> nat \<Rightarrow> RouterOSResponse option list \<Rightarrow> session" where
  "deliver_until_settled s p [] = s"
| "deliver_until_settled s p (m # ms) =
     (if promise_state s p \<noteq> None then s else deliver_until_settled (handleMessage s m) p ms)"

definition await :: "session \<Rightarrow> nat \<Rightarrow> RouterOSResponse option list
    \<Rightarrow> RouterOSResponse settled option \<times> session" where
  "await s p msgs =
     (let s1 = deliver_until_settled s p msgs
      in if promise_state s1 p \<noteq> None then (promise_state s1 p, s1)
         else (case timer_of s1 p of
                 None \<Rightarrow> (None, s1)
               | Some t \<Rightarrow> let s2 = timeout s1 t in (promise_state s2 p, s2)))"

text \<open>\<open>await this.sendCommand(c)\<close>\<close>

definition submit :: "session \<Rightarrow> RouterOSCommand \<Rightarrow> RouterOSResponse option list
    \<Rightarrow> RouterOSResponse settled option \<times> session" where
  "submit s c msgs = (let (p, s1) = sendCommand s c in await s1 p msgs)"

text \<open>\<open>login\<close> (lines 80-96): a promise of a boolean that never rejects.\<close>

definition login :: "session \<Rightarrow> RouterOSResponse option list \<Rightarrow> bool option \<times> session" where
  "login s msgs =
     (case submit s \<lparr>command = ''/login'',
               arguments = Some [(''name'', username s), (''password'', password s)]\<rparr> msgs of
        (None, s') \<Rightarrow> (None, s')
      | (Some (Resolved response), s') \<Rightarrow> (Some (rtype response = Done), s')
      | (Some (Rejected e), s') \<Rightarrow> (Some False, s'))"

text \<open>\<open>getSystemResource\<close> (lines 148-151)\<close>

definition getSystemResource :: "session \<Rightarrow> RouterOSResponse option list
    \<Rightarrow> jsval settled option \<times> session" where
  "getSystemResource s msgs =
     (case submit s \<lparr>command = ''/system/resource/print'', arguments = None\<rparr> msgs of
        (None, s') \<Rightarrow> (None, s')
      | (Some (Resolved response), s') \<Rightarrow> (Some (Resolved (data response)), s')
      | (Some (Rejected e), s') \<Rightarrow> (Some (Rejected e), s'))"

text \<open>\<open>Array.isArray(response.data) ? response.data : [response.data]\<close>\<close>

definition as_array :: "jsval \<Rightarrow> jsval list" where
  "as_array v = (case v of JArray xs \<Rightarrow> xs | _ \<Rightarrow> [v])"

text \<open>\<open>getInterfaces\<close> (lines 153-156)\<close>

definition getInterfaces :: "session \<Rightarrow> RouterOSResponse option list
    \<Rightarrow> jsval list settled option \<times> session" where
  "getInterfaces s msgs =
     (case submit s \<lparr>command = ''/interface/print'', arguments = None\<rparr> msgs of
        (None, s') \<Rightarrow> (None, s')
      | (Some (Resolved response), s') \<Rightarrow> (Some (Resolved (as_array (data response))), s')
      | (Some (Rejected e), s') \<Rightarrow> (Some (Rejected e), s'))"

text \<open>
  \<open>await\<close> on promise \<open>p\<close> while anything may happen on the session: the events \<open>evs\<close> (calls
  of other callers, among them \<open>disconnect\<close>, frames, timers, the close of the socket) happen
  in order, and the waiting caller goes on at the first state in which the promise is
  settled. The result is \<open>None\<close> when the events end before that.
\<close>

fun run_until_settled :: "session \<Rightarrow> nat \<Rightarrow> event list \<Rightarrow> session" where
  "run_until_settled s p [] = s"
| "run_until_settled s p (e # es) =
     (if promise_state s p \<noteq> None then s else run_until_settled (step s e) p es)"

definition await_events :: "session \<Rightarrow> nat \<Rightarrow> event list
    \<Rightarrow> RouterOSResponse settled option \<times> session" where
  "await_events s p evs = (let s1 = run_until_settled s p evs in (promise_state s1 p, s1))"

text \<open>\<open>await this.sendCommand(c)\<close>, while the events \<open>evs\<close> happen.\<close>

definition command_outcome :: "session \<Rightarrow> RouterOSCommand \<Rightarrow> event list
    \<Rightarrow> RouterOSResponse settled option \<times> session" where
  "command_outcome s c evs = (let (p, s1) = sendCommand s c in await_events s1 p evs)"

text \<open>
  \<open>try { await this.sendCommand(c); return true } catch (error) { return false }\<close>, the body
  shared by the three mutating operations.
\<close>

definition succeeded :: "session \<Rightarrow> RouterOSCommand \<Rightarrow> event list
    \<Rightarrow> bool settled option \<times> session" where
  "succeeded s c evs =
     (case command_outcome s c evs of
        (None, s') \<Rightarrow> (None, s')
      | (Some (Resolved response), s') \<Rightarrow> (Some (Resolved True), s')
      | (Some (Rejected e), s') \<Rightarrow> (Some (Resolved False), s'))"

text \<open>\<open>addHotspotUser\<close> (lines 168-182); \<open>profile\<close> defaults to \<open>'default'\<close>.\<close>

definition addHotspotUser_command :: "string \<Rightarrow> string \<Rightarrow> string option \<Rightarrow> RouterOSCommand" where
  "addHotspotUser_command u pw profile =
     \<lparr>command = ''/ip/hotspot/user/add'',
      arguments = Some [(''name'', u), (''password'', pw),
        (''profile'', case profile of None \<Rightarrow> ''default'' | Some pr \<Rightarrow> pr)]\<rparr>"

definition addHotspotUser :: "session \<Rightarrow> string \<Rightarrow> string \<Rightarrow> string option
    \<Rightarrow> event list \<Rightarrow> bool settled option \<times> session" where
  "addHotspotUser s u pw profile evs = succeeded s (addHotspotUser_command u pw profile) evs"

text \<open>\<open>removeHotspotUser\<close> (lines 184-196)\<close>

definition removeHotspotUser_command :: "string \<Rightarrow> RouterOSCommand" where
  "removeHotspotUser_command i =
     \<lparr>command = ''/ip/hotspot/user/remove'', arguments = Some [(''numbers'', i)]\<rparr>"

definition removeHotspotUser :: "session \<Rightarrow> string \<Rightarrow> event list
    \<Rightarrow> bool settled option \<times> session" where
  "removeHotspotUser s i evs = succeeded s (removeHotspotUser_command i) evs"

text \<open>\<open>disconnectActiveUser\<close> (lines 198-210)\<close>

definition disconnectActiveUser_command :: "string \<Rightarrow> RouterOSCommand" where
  "disconnectActiveUser_command i =
     \<lparr>command = ''/ip/hotspot/active/remove'', arguments = Some [(''numbers'', i)]\<rparr>"

definition disconnectActiveUser :: "session \<Rightarrow> string \<Rightarrow> event list
    \<Rightarrow> bool settled option \<times> session" where
  "disconnectActiveUser s i evs = succeeded s (disconnectActiveUser_command i) evs"

subsection \<open>RouterOSAPI.connect\<close>

text \<open>
  What the socket made at line 37 does before anything else: the constructor throws; the
  \<open>error\<close> event comes first; nothing comes within the 10 seconds of the timer of lines
  69-73; or the \<open>open\<close> event comes first, and then the frames listed arrive while \<open>login\<close>
  is awaited.
\<close>

datatype ws_behaviour =
  Throws js_error
  | ErrorEvent
  | NoEvent
  | OpenEvent "RouterOSResponse option list"

text \<open>\<open>`ws://${host}:${port + 1}`\<close>\<close>

definition ws_url :: "string \<Rightarrow> nat \<Rightarrow> string" where
  "ws_url h prt = ''ws://'' @ h @ '':'' @ show_nat (prt + 1)"

text \<open>
  \<open>connect\<close> (lines 26-78). The new socket is connecting; it is closed when its \<open>error\<close>
  event comes and open when its \<open>open\<close> event comes. With \<open>NoEvent\<close> the timer rejects unless
  \<open>connected\<close> is set, and then the promise stays pending. With \<open>OpenEvent\<close> the handler of
  lines 45-54 runs \<open>login\<close> and stores its result in \<open>connected\<close>.
\<close>

definition connect :: "session \<Rightarrow> string \<Rightarrow> string \<Rightarrow> string \<Rightarrow> nat \<Rightarrow> ws_behaviour
    \<Rightarrow> bool settled option \<times> session" where
  "connect s h u pw prt behaviour =
     (let s0 = s\<lparr>host := h, username := u, password := pw, port := prt\<rparr>;
          s1 = s0\<lparr>ws := Some (ws_url h prt), readyState := CONNECTING\<rparr>
      in case behaviour of
           Throws e \<Rightarrow>
             (Some (Rejected (Error (''Connection failed: '' @ error_to_string e))), s0)
         | ErrorEvent \<Rightarrow>
             (Some (Rejected (Error ''WebSocket connection failed'')), s1\<lparr>readyState := CLOSED\<rparr>)
         | NoEvent \<Rightarrow>
             (if \<not> connected s1 then Some (Rejected (Error ''Connection timeout'')) else None, s1)
         | OpenEvent msgs \<Rightarrow>
             (case login (s1\<lparr>readyState := OPEN\<rparr>) msgs of
                (None, s2) \<Rightarrow> (None, s2)
              | (Some loginResult, s2) \<Rightarrow>
                  (Some (Resolved loginResult), s2\<lparr>connected := loginResult\<rparr>)))"

subsection \<open>The REST client: class RouterOSHTTPAPI\<close>

text \<open>\<open>fetched\<close> is the list of requests given to \<open>fetch\<close>, method and URL.\<close>

record RouterOSHTTPAPI =
  baseUrl :: string
  http_username :: string
  http_password :: string
  sessionId :: string
  fetched :: "(string \<times> string) list"

definition new_http :: RouterOSHTTPAPI where
  "new_http = \<lparr>baseUrl = [], http_username = [], http_password = [], sessionId = [],
     fetched = []\<rparr>"

text \<open>
  What \<open>fetch\<close> gives: it throws (the host is not reached), or a response with \<open>ok\<close>,
  \<open>status\<close>, \<open>statusText\<close> and what \<open>response.json()\<close> gives.
\<close>

datatype fetch_outcome =
  NetworkError js_error
  | Response bool nat string "js_error + jsval"

definition http_status_error :: "nat \<Rightarrow> string \<Rightarrow> js_error" where
  "http_status_error status statusText = Error (''HTTP '' @ show_nat status @ '': '' @ statusText)"

text \<open>\<open>`${useHttps ? 'https' : 'http'}://${host}:${port}/rest`\<close>\<close>

definition rest_url :: "bool \<Rightarrow> string \<Rightarrow> nat \<Rightarrow> string" where
  "rest_url useHttps h prt =
     (if useHttps then ''https'' else ''http'') @ ''://'' @ h @ '':'' @ show_nat prt @ ''/rest''"

text \<open>\<open>connect\<close> of the REST client (lines 235-258)\<close>

definition http_connect :: "RouterOSHTTPAPI \<Rightarrow> string \<Rightarrow> string \<Rightarrow> string \<Rightarrow> nat \<Rightarrow> bool
    \<Rightarrow> fetch_outcome \<Rightarrow> bool settled \<times> RouterOSHTTPAPI" where
  "http_connect a h u pw prt useHttps outcome =
     (let url = rest_url useHttps h prt;
          a1 = a\<lparr>baseUrl := url, http_username := u, http_password := pw,
                 fetched := fetched a @ [(''GET'', url @ ''/system/resource'')]\<rparr>
      in case outcome of
           NetworkError e \<Rightarrow>
             (Rejected (Error (''Connection failed: '' @ error_to_string e)), a1)
         | Response ok status statusText body \<Rightarrow>
             if ok then (Resolved True, a1)
             else (Rejected (Error (''Connection failed: ''
                      @ error_to_string (http_status_error status statusText))), a1))"

text \<open>\<open>makeRequest\<close> (lines 260-282)\<close>

definition makeRequest :: "RouterOSHTTPAPI \<Rightarrow> string \<Rightarrow> string \<Rightarrow> fetch_outcome
    \<Rightarrow> jsval settled \<times> RouterOSHTTPAPI" where
  "makeRequest a endpoint method outcome =
     (let a1 = a\<lparr>fetched := fetched a @ [(method, baseUrl a @ endpoint)]\<rparr>
      in case outcome of
           NetworkError e \<Rightarrow> (Rejected e, a1)
         | Response ok status statusText body \<Rightarrow>
             if \<not> ok then (Rejected (http_status_error status statusText), a1)
             else (case body of Inl e \<Rightarrow> (Rejected e, a1) | Inr v \<Rightarrow> (Resolved v, a1)))"

definition http_getSystemResource :: "RouterOSHTTPAPI \<Rightarrow> fetch_outcome
    \<Rightarrow> jsval settled \<times> RouterOSHTTPAPI" where
  "http_getSystemResource a outcome = makeRequest a ''/system/resource'' ''GET'' outcome"

subsection \<open>The manager: class MikroTikAPIManager\<close>

datatype api = WS | HTTP

record config =
  cfg_host :: string
  cfg_username :: string
  cfg_password :: string
  cfg_port :: nat
  cfg_useHttps :: bool

record connect_result =
  success :: bool
  connect_method :: "string option"
  error :: "string option"
  systemInfo :: "jsval option"

record MikroTikAPIManager =
  wsApi :: session
  httpApi :: RouterOSHTTPAPI
  currentApi :: "api option"
  config :: "config option"

text \<open>\<open>new MikroTikAPIManager()\<close>\<close>

definition new_manager :: MikroTikAPIManager where
  "new_manager = \<lparr>wsApi = new_session, httpApi = new_http, currentApi = None, config = None\<rparr>"

text \<open>\<open>port || d\<close>, for the optional parameter \<open>port\<close>\<close>

definition port_or :: "nat option \<Rightarrow> nat \<Rightarrow> nat" where
  "port_or prt d = (case prt of None \<Rightarrow> d | Some n \<Rightarrow> if n = 0 then d else n)"

text \<open>What the network does during one call of the manager's \<open>connect\<close>.\<close>

record network =
  ws_open :: ws_behaviour
  ws_probe :: "RouterOSResponse option list"
  http_open :: fetch_outcome
  http_probe :: fetch_outcome

text \<open>
  The identifier \<open>wsError\<close> is bound by the \<open>catch\<close> clause of line 361 and only inside its
  block. The template string of line 375 is in the block of the other \<open>catch\<close> clause, where
  no \<open>wsError\<close> is in scope: evaluating it throws this error, out of the \<open>catch\<close> block, and
  the promise of \<open>connect\<close> is rejected with it.
\<close>

definition wsError_not_defined :: js_error where
  "wsError_not_defined = JsError ''ReferenceError'' ''wsError is not defined''"

text \<open>The second \<open>try\<close> statement of the manager's \<open>connect\<close> and the last \<open>return\<close> (lines 365-378).\<close>

definition http_fallback :: "MikroTikAPIManager \<Rightarrow> string \<Rightarrow> string \<Rightarrow> string \<Rightarrow> nat option
    \<Rightarrow> bool \<Rightarrow> network \<Rightarrow> connect_result settled \<times> MikroTikAPIManager" where
  "http_fallback m h u pw prt useHttps net =
     (case http_connect (httpApi m) h u pw (port_or prt 80) useHttps (http_open net) of
        (Rejected httpError, a) \<Rightarrow> (Rejected wsError_not_defined, m\<lparr>httpApi := a\<rparr>)
      | (Resolved httpConnected, a) \<Rightarrow>
          if httpConnected then
            (case http_getSystemResource a (http_probe net) of
               (Rejected httpError, a') \<Rightarrow>
                 (Rejected wsError_not_defined, m\<lparr>httpApi := a', currentApi := Some HTTP\<rparr>)
             | (Resolved info, a') \<Rightarrow>
                 (Resolved \<lparr>success = True, connect_method = Some ''HTTP REST API'', error = None,
                            systemInfo = Some info\<rparr>,
                  m\<lparr>httpApi := a', currentApi := Some HTTP\<rparr>))
          else (Resolved \<lparr>success = False, connect_method = None,
                           error = Some ''No API method available'', systemInfo = None\<rparr>,
                m\<lparr>httpApi := a\<rparr>))"

text \<open>The manager's \<open>connect\<close> (lines 350-379). \<open>None\<close>: the promise never settles.\<close>

definition manager_connect :: "MikroTikAPIManager \<Rightarrow> string \<Rightarrow> string \<Rightarrow> string \<Rightarrow> nat option
    \<Rightarrow> bool \<Rightarrow> network \<Rightarrow> connect_result settled option \<times> MikroTikAPIManager" where
  "manager_connect m h u pw prt useHttps net =
     (let m0 = m\<lparr>config := Some \<lparr>cfg_host = h, cfg_username = u, cfg_password = pw,
                    cfg_port = port_or prt 8728, cfg_useHttps = useHttps\<rparr>\<rparr>;
          fallback = (\<lambda>m'. case http_fallback m' h u pw prt useHttps net of
                               (r, m'') \<Rightarrow> (Some r, m''))
      in case connect (wsApi m0) h u pw (port_or prt 8728) (ws_open net) of
           (None, w) \<Rightarrow> (None, m0\<lparr>wsApi := w\<rparr>)
         | (Some (Rejected wsError), w) \<Rightarrow> fallback (m0\<lparr>wsApi := w\<rparr>)
         | (Some (Resolved wsConnected), w) \<Rightarrow>
             if wsConnected then
               (case getSystemResource w (ws_probe net) of
                  (None, w') \<Rightarrow> (None, m0\<lparr>wsApi := w', currentApi := Some WS\<rparr>)
                | (Some (Rejected wsError), w') \<Rightarrow>
                    fallback (m0\<lparr>wsApi := w', currentApi := Some WS\<rparr>)
                | (Some (Resolved info), w') \<Rightarrow>
                    (Some (Resolved \<lparr>success = True, connect_method = Some ''WebSocket API'',
                                      error = None, systemInfo = Some info\<rparr>),
                     m0\<lparr>wsApi := w', currentApi := Some WS\<rparr>))
             else fallback (m0\<lparr>wsApi := w\<rparr>))"

text \<open>The manager's \<open>isConnected\<close> (lines 415-419) and \<open>getCurrentMethod\<close> (lines 428-430)\<close>

definition manager_isConnected :: "MikroTikAPIManager \<Rightarrow> bool" where
  "manager_isConnected m =
     (case currentApi m of
        Some WS \<Rightarrow> isConnected (wsApi m)
      | Some HTTP \<Rightarrow> True
      | None \<Rightarrow> False)"

definition getCurrentMethod :: "MikroTikAPIManager \<Rightarrow> api option" where
  "getCurrentMethod m = currentApi m"

text \<open>The manager's \<open>disconnect\<close> (lines 421-426)\<close>

definition manager_disconnect :: "MikroTikAPIManager \<Rightarrow> MikroTikAPIManager" where
  "manager_disconnect m =
     (case currentApi m of
        Some WS \<Rightarrow> m\<lparr>wsApi := disconnect (wsApi m), currentApi := None\<rparr>
      | _ \<Rightarrow> m\<lparr>currentApi := None\<rparr>)"

subsection \<open>Concrete sessions, commands and frames\<close>

definition reply :: "rtype \<Rightarrow> string \<Rightarrow> RouterOSResponse" where
  "reply ty t = \<lparr>rtype = ty, tag = Some t, data = JUndefined, message = None\<rparr>"

text \<open>A session whose socket is open and whose \<open>connected\<close> flag is set.\<close>

definition open_session :: session where
  "open_session =
     new_session\<lparr>ws := Some ''ws://10.0.0.1:8729'', readyState := OPEN, connected := True\<rparr>"

definition print_interfaces :: RouterOSCommand where
  "print_interfaces = \<lparr>command = ''/interface/print'', arguments = None\<rparr>"

text \<open>Two commands; the first is answered, then both timers fire.\<close>

definition two_commands :: "event list" where
  "two_commands =
     [Send print_interfaces, Send print_interfaces, Message (Some (reply Done ''tag1'')),
      Timer ''tag1'', Timer ''tag2'']"

text \<open>The open session after one command was sent: \<open>tag1\<close> is pending.\<close>

definition one_pending :: session where
  "one_pending = snd (sendCommand open_session print_interfaces)"

text \<open>
  The open session after \<open>connect\<close> was called on it again and before any event of the new
  socket: the flag is still set and the new socket is connecting.
\<close>

definition connecting_session :: session where
  "connecting_session = snd (connect open_session ''10.0.0.1'' ''admin'' ''secret'' 8728 NoEvent)"

text \<open>A command is sent on it.\<close>

definition refused_frame :: session where
  "refused_frame = snd (sendCommand connecting_session print_interfaces)"

definition ether1 :: jsval where
  "ether1 = JObject [(''name'', JStr ''ether1'')]"

definition data_then_done :: "RouterOSResponse option list" where
  "data_then_done = [Some ((reply Data ''tag1'')\<lparr>data := ether1\<rparr>), Some (reply Done ''tag1'')]"

definition no_such_user :: RouterOSResponse where
  "no_such_user = (reply Trap ''tag1'')\<lparr>message := Some ''no such item''\<rparr>"

definition two_interfaces :: RouterOSResponse where
  "two_interfaces = (reply Done ''tag1'')\<lparr>data := JArray [ether1, JStr ''wlan1'']\<rparr>"

text \<open>Networks for the manager's \<open>connect\<close>, and the states they lead to.\<close>

definition resource :: jsval where
  "resource = JObject [(''version'', JStr ''7.15''), (''uptime'', JStr ''1d2h'')]"

definition ok_response :: fetch_outcome where
  "ok_response = Response True 200 ''OK'' (Inr resource)"

definition unauthorized :: fetch_outcome where
  "unauthorized = Response False 401 ''Unauthorized'' (Inr JNull)"

definition failed_to_fetch :: fetch_outcome where
  "failed_to_fetch = NetworkError (JsError ''TypeError'' ''Failed to fetch'')"

text \<open>No method reaches the router.\<close>

definition unreachable :: network where
  "unreachable = \<lparr>ws_open = ErrorEvent, ws_probe = [], http_open = failed_to_fetch,
     http_probe = failed_to_fetch\<rparr>"

text \<open>The socket fails; the REST service accepts the credentials and answers the probe.\<close>

definition rest_only :: network where
  "rest_only = \<lparr>ws_open = ErrorEvent, ws_probe = [], http_open = ok_response,
     http_probe = ok_response\<rparr>"

text \<open>The socket fails; the REST service refuses the credentials.\<close>

definition rest_refuses :: network where
  "rest_refuses = \<lparr>ws_open = ErrorEvent, ws_probe = [], http_open = unauthorized,
     http_probe = unauthorized\<rparr>"

text \<open>The socket fails; the REST service accepts the credentials and fails the probe.\<close>

definition rest_probe_fails :: network where
  "rest_probe_fails = \<lparr>ws_open = ErrorEvent, ws_probe = [], http_open = ok_response,
     http_probe = Response False 500 ''Internal Server Error'' (Inr JNull)\<rparr>"

text \<open>The socket opens and the router answers the login with a trap; the REST service accepts.\<close>

definition login_refused :: RouterOSResponse where
  "login_refused = (reply Trap ''tag1'')\<lparr>message := Some ''invalid user name or password (6)''\<rparr>"

definition login_trap :: network where
  "login_trap = \<lparr>ws_open = OpenEvent [Some login_refused], ws_probe = [],
     http_open = ok_response, http_probe = ok_response\<rparr>"

text \<open>The socket opens, the login is answered with done and the probe with the resource.\<close>

definition ws_works :: network where
  "ws_works = \<lparr>ws_open = OpenEvent [Some (reply Done ''tag1'')],
     ws_probe = [Some ((reply Done ''tag2'')\<lparr>data := resource\<rparr>)],
     http_open = failed_to_fetch, http_probe = failed_to_fetch\<rparr>"

text \<open>The socket opens, the login is answered with done, the probe with a trap; the REST service accepts.\<close>

definition ws_probe_trap :: network where
  "ws_probe_trap = \<lparr>ws_open = OpenEvent [Some (reply Done ''tag1'')],
     ws_probe = [Some (reply Trap ''tag2'')],
     http_open = ok_response, http_probe = ok_response\<rparr>"

text \<open>A manager whose WebSocket session has its \<open>connected\<close> flag set.\<close>

definition flagged_manager :: MikroTikAPIManager where
  "flagged_manager = new_manager\<lparr>wsApi := open_session\<rparr>"

text \<open>A new manager after a successful \<open>connect\<close> over REST, and after a second \<open>connect\<close> with a password that the router refuses.\<close>

definition after_rest_connect :: MikroTikAPIManager where
  "after_rest_connect =
     snd (manager_connect new_manager ''10.0.0.1'' ''admin'' ''secret'' None False rest_only)"

definition after_refusal :: MikroTikAPIManager where
  "after_refusal =
     snd (manager_connect after_rest_connect ''10.0.0.1'' ''admin'' ''wrong'' None False rest_refuses)"


section \<open>Lemmas\<close>

subsection \<open>Tags are rendered injectively\<close>

lemma digit_char_inj: "a < 10 \<Longrightarrow> b < 10 \<Longrightarrow> digit_char a = digit_char b \<Longrightarrow> a = b"
proof -
  assume a: "a < 10" and b: "b < 10" and e: "digit_char a = digit_char b"
  have "distinct ''0123456789''" by simp
  moreover have "a < length ''0123456789''" "b < length ''0123456789''"
    using a b by simp_all
  ultimately show "a = b"
    using e unfolding digit_char_def by (simp only: nth_eq_iff_index_eq)
qed

lemma show_nat_not_Nil: "show_nat n \<noteq> []"
  by (subst show_nat.simps) simp

lemma show_nat_last: "last (show_nat n) = digit_char (n mod 10)"
  by (subst show_nat.simps) simp

lemma show_nat_butlast: "butlast (show_nat n) = (if n < 10 then [] else show_nat (n div 10))"
  by (subst show_nat.simps) simp

lemma show_nat_inj: "show_nat n = show_nat m \<Longrightarrow> n = m"
proof (induction n arbitrary: m rule: show_nat.induct)
  case (1 n)
  from "1.prems" have l: "digit_char (n mod 10) = digit_char (m mod 10)"
    by (metis show_nat_last)
  then have mod_eq: "n mod 10 = m mod 10"
    by (intro digit_char_inj) simp_all
  from "1.prems" have b: "butlast (show_nat n) = butlast (show_nat m)" by simp
  show ?case
  proof (cases "n < 10")
    case True
    with b have "m < 10"
      by (auto simp: show_nat_butlast show_nat_not_Nil split: if_splits dest: sym)
    with True mod_eq show ?thesis by simp
  next
    case False
    with b have m: "\<not> m < 10" and e: "show_nat (n div 10) = show_nat (m div 10)"
      by (auto simp: show_nat_butlast show_nat_not_Nil split: if_splits)
    from "1.IH" [OF False e] have "n div 10 = m div 10" .
    with mod_eq show ?thesis
      by (metis div_mult_mod_eq)
  qed
qed

lemma tag_of_inj: "tag_of n = tag_of m \<longleftrightarrow> n = m"
  by (auto simp: tag_of_def dest: show_nat_inj)



subsection \<open>Promises, callbacks and the three cases of sendCommand\<close>

lemma settle_fields [simp]:
  "ws (settle s p v) = ws s" "connected (settle s p v) = connected s"
  "readyState (settle s p v) = readyState s"
  "callbacks (settle s p v) = callbacks s" "tagCounter (settle s p v) = tagCounter s"
  "timers (settle s p v) = timers s" "sent (settle s p v) = sent s"
  "closed (settle s p v) = closed s" "length (promises (settle s p v)) = length (promises s)"
  by (simp_all add: settle_def)

lemma settle_other: "q \<noteq> p \<Longrightarrow> promises (settle s p v) ! q = promises s ! q"
  by (simp add: settle_def)

lemma settle_pending:
  "p < length (promises s) \<Longrightarrow> promises s ! p = None \<Longrightarrow> promises (settle s p v) ! p = Some v"
  by (simp add: settle_def)

lemma settle_settled: "promises s ! p \<noteq> None \<Longrightarrow> settle s p v = s"
  by (auto simp: settle_def)

lemma callback_fields [simp]:
  "ws (callback s p r) = ws s" "connected (callback s p r) = connected s"
  "readyState (callback s p r) = readyState s"
  "callbacks (callback s p r) = callbacks s" "tagCounter (callback s p r) = tagCounter s"
  "timers (callback s p r) = timers s" "sent (callback s p r) = sent s"
  "closed (callback s p r) = closed s" "length (promises (callback s p r)) = length (promises s)"
  by (simp_all add: callback_def)

lemma callback_other: "q \<noteq> p \<Longrightarrow> promises (callback s p r) ! q = promises s ! q"
  by (simp add: callback_def settle_other)

lemma tags_between_set: "set (tags_between a b) = tag_of ` {k. a < k \<and> k \<le> b}"
  by (auto simp: tags_between_def)

lemma tags_between_mono: "b \<le> c \<Longrightarrow> set (tags_between a b) \<subseteq> set (tags_between a c)"
  by (auto simp: tags_between_set)

lemma delete_set: "set (AList.delete k al) = {kv \<in> set al. fst kv \<noteq> k}"
  by (auto simp: AList.delete_eq)

text \<open>The counter: \<open>++\<close> adds one below \<open>2^53\<close> and never makes the counter smaller.\<close>

lemma js_incr_below: "n < 2 ^ 53 \<Longrightarrow> js_incr n = Suc n"
  by (simp add: js_incr_def)

lemma js_incr_ge: "n \<le> js_incr n"
  by (simp add: js_incr_def)

lemma js_incr_pos: "0 < js_incr n"
  by (simp add: js_incr_def)

lemma tag_allocated: "tag_of (js_incr n) \<in> set (tags_between 0 (js_incr n))"
  using js_incr_pos [of n] by (auto simp: tags_between_set)

text \<open>The command is refused because the session is not connected.\<close>

lemma sendCommand_not_connected:
  "ws s = None \<or> \<not> connected s \<Longrightarrow>
   sendCommand s c = (length (promises s),
     s\<lparr>promises := promises s @ [Some (Rejected (Error ''Not connected to RouterOS''))]\<rparr>)"
  by (auto simp: sendCommand_def Let_def settle_def)

text \<open>The socket throws: the tag is allocated and stays pending, nothing is sent, no timer is armed.\<close>

lemma sendCommand_refused:
  "ws s \<noteq> None \<Longrightarrow> connected s \<Longrightarrow> readyState s = CONNECTING \<Longrightarrow>
   sendCommand s c = (length (promises s),
     s\<lparr>promises := promises s @ [Some (Rejected invalid_state)],
       tagCounter := js_incr (tagCounter s),
       callbacks := AList.update (tag_of (js_incr (tagCounter s))) (length (promises s))
         (callbacks s)\<rparr>)"
  by (auto simp: sendCommand_def Let_def settle_def)

text \<open>The socket takes the frame.\<close>

lemma sendCommand_accepted:
  "ws s \<noteq> None \<Longrightarrow> connected s \<Longrightarrow> readyState s \<noteq> CONNECTING \<Longrightarrow>
   sendCommand s c = (length (promises s),
     s\<lparr>promises := promises s @ [None], tagCounter := js_incr (tagCounter s),
       callbacks := AList.update (tag_of (js_incr (tagCounter s))) (length (promises s))
         (callbacks s),
       sent := sent s @ [wire_message c (tag_of (js_incr (tagCounter s)))],
       timers := timers s @ [(tag_of (js_incr (tagCounter s)), length (promises s))]\<rparr>)"
  by (auto simp: sendCommand_def Let_def)

lemma sendCommand_fst [simp]: "fst (sendCommand s c) = length (promises s)"
  by (simp add: sendCommand_def Let_def)

subsection \<open>What a step does to the callbacks, the counter and the timers\<close>

lemma run_Nil [simp]: "run s [] = s"
  by (simp add: run_def)

lemma run_Cons [simp]: "run s (e # es) = run (step s e) es"
  by (simp add: run_def)

lemma run_append: "run s (xs @ ys) = run (run s xs) ys"
  by (simp add: run_def)

lemma handleMessage_callbacks:
  "callbacks (handleMessage s m) =
     (case m of None \<Rightarrow> callbacks s
      | Some r \<Rightarrow> if terminal r then AList.delete (tag_or_empty r) (callbacks s) else callbacks s)"
  by (simp add: handleMessage_def terminal_def Let_def map_of_eq_None_iff
        split: option.splits)

lemma handleMessage_tagCounter [simp]: "tagCounter (handleMessage s m) = tagCounter s"
  by (simp add: handleMessage_def Let_def split: option.splits)

lemma handleMessage_timers [simp]: "timers (handleMessage s m) = timers s"
  by (simp add: handleMessage_def Let_def split: option.splits)

lemma timeout_callbacks:
  "callbacks (timeout s t) =
     (if map_of (timers s) t = None then callbacks s else AList.delete t (callbacks s))"
proof (cases "map_of (timers s) t")
  case None
  then show ?thesis by (simp add: timeout_def)
next
  case (Some p)
  show ?thesis
  proof (cases "map_of (callbacks s) t")
    case None
    then have "t \<notin> fst ` set (callbacks s)" by (simp add: map_of_eq_None_iff)
    then have "AList.delete t (callbacks s) = callbacks s" by simp
    with None Some show ?thesis by (simp add: timeout_def)
  next
    case (Some p')
    with \<open>map_of (timers s) t = Some p\<close> show ?thesis by (simp add: timeout_def)
  qed
qed

lemma timeout_tagCounter [simp]: "tagCounter (timeout s t) = tagCounter s"
  by (simp add: timeout_def Let_def split: option.splits)

lemma timeout_timers:
  "timers (timeout s t) =
     (case map_of (timers s) t of None \<Rightarrow> timers s | Some p \<Rightarrow> remove1 (t, p) (timers s))"
  by (simp add: timeout_def Let_def split: option.splits)

lemma step_callbacks:
  "callbacks (step s e) =
     (case e of
        Send c \<Rightarrow> if ws s = None \<or> \<not> connected s then callbacks s
                  else AList.update (tag_of (js_incr (tagCounter s))) (length (promises s))
                         (callbacks s)
      | Message m \<Rightarrow> (case m of None \<Rightarrow> callbacks s
           | Some r \<Rightarrow> if terminal r then AList.delete (tag_or_empty r) (callbacks s) else callbacks s)
      | Timer t \<Rightarrow> if map_of (timers s) t = None then callbacks s else AList.delete t (callbacks s)
      | Disconnect \<Rightarrow> []
      | Close \<Rightarrow> callbacks s)"
proof (cases e)
  case (Send c)
  then show ?thesis by (auto simp: sendCommand_def Let_def)
next
  case (Message m)
  then show ?thesis by (simp add: handleMessage_callbacks)
next
  case (Timer t)
  then show ?thesis by (simp add: timeout_callbacks)
next
  case Disconnect
  then show ?thesis by (simp add: disconnect_def split: option.splits)
next
  case Close
  then show ?thesis by (simp add: onclose_def)
qed

lemma step_tagCounter:
  "tagCounter (step s e) =
     (case e of
        Send c \<Rightarrow> if ws s = None \<or> \<not> connected s then tagCounter s else js_incr (tagCounter s)
      | _ \<Rightarrow> tagCounter s)"
proof (cases e)
  case (Send c)
  then show ?thesis by (auto simp: sendCommand_def Let_def)
next
  case Disconnect
  then show ?thesis by (simp add: disconnect_def split: option.splits)
qed (simp_all add: onclose_def)

lemma step_timers:
  "timers (step s e) =
     (case e of
        Send c \<Rightarrow> if ws s = None \<or> \<not> connected s \<or> readyState s = CONNECTING then timers s
                  else timers s @ [(tag_of (js_incr (tagCounter s)), length (promises s))]
      | Timer t \<Rightarrow> (case map_of (timers s) t of None \<Rightarrow> timers s
                    | Some p \<Rightarrow> remove1 (t, p) (timers s))
      | _ \<Rightarrow> timers s)"
proof (cases e)
  case (Send c)
  then show ?thesis by (auto simp: sendCommand_def Let_def)
next
  case (Timer t)
  then show ?thesis by (simp add: timeout_timers)
next
  case Disconnect
  then show ?thesis by (simp add: disconnect_def split: option.splits)
qed (simp_all add: onclose_def)

lemma tagCounter_step: "tagCounter s \<le> tagCounter (step s e)"
  by (cases e) (simp_all add: step_tagCounter js_incr_ge del: step.simps)

lemma tagCounter_run: "tagCounter s \<le> tagCounter (run s evs)"
proof (induction evs arbitrary: s)
  case Nil
  show ?case by simp
next
  case (Cons e es)
  have "tagCounter s \<le> tagCounter (step s e)" by (rule tagCounter_step)
  also have "\<dots> \<le> tagCounter (run (step s e) es)" by (rule Cons.IH)
  finally show ?case by simp
qed

subsection \<open>Every method keeps the state well-formed\<close>

lemma session_ok_step:
  assumes ok: "session_ok s"
  shows "session_ok (step s e)"
proof -
  from ok have d: "distinct (map fst (callbacks s))"
    and b: "fst ` set (callbacks s) \<subseteq> set (tags_between 0 (tagCounter s))"
    by (auto simp: session_ok_def)
  have m: "set (tags_between 0 (tagCounter s)) \<subseteq> set (tags_between 0 (js_incr (tagCounter s)))"
    by (rule tags_between_mono) (rule js_incr_ge)
  show ?thesis
  proof (cases e)
    case (Send c)
    have "fst ` set (AList.update (tag_of (js_incr (tagCounter s))) (length (promises s))
              (callbacks s)) \<subseteq> set (tags_between 0 (js_incr (tagCounter s)))"
      using b m tag_allocated [of "tagCounter s"] by (auto simp: AList.dom_update)
    with Send d b show ?thesis
      by (simp add: session_ok_def step_callbacks step_tagCounter AList.distinct_update
            del: step.simps)
  next
    case (Message m)
    with d b show ?thesis
      by (auto simp: session_ok_def step_callbacks step_tagCounter AList.distinct_delete
            delete_set simp del: step.simps split: option.splits)
  next
    case (Timer t)
    with d b show ?thesis
      by (auto simp: session_ok_def step_callbacks step_tagCounter AList.distinct_delete
            delete_set simp del: step.simps)
  next
    case Disconnect
    then show ?thesis by (simp add: session_ok_def step_callbacks del: step.simps)
  next
    case Close
    with d b show ?thesis
      by (simp add: session_ok_def step_callbacks step_tagCounter del: step.simps)
  qed
qed

lemma session_ok_sendCommand: "session_ok s \<Longrightarrow> session_ok (snd (sendCommand s c))"
  using session_ok_step [of s "Send c"] by simp

lemma session_ok_run: "session_ok s \<Longrightarrow> session_ok (run s evs)"
  by (induction evs arbitrary: s) (simp_all add: session_ok_step)

text \<open>
  A state without pending commands is well-formed, so every state that the methods lead to
  from a new object is.
\<close>

lemma session_ok_no_callbacks: "callbacks s = [] \<Longrightarrow> session_ok s"
  by (simp add: session_ok_def)

lemma session_ok_new_session: "session_ok new_session"
  by (simp add: session_ok_no_callbacks new_session_def)

lemma session_ok_reached: "session_ok (run new_session evs)"
  using session_ok_new_session by (rule session_ok_run)

text \<open>No event sets the \<open>connected\<close> flag.\<close>

lemma step_keeps_not_connected: "\<not> connected s \<Longrightarrow> \<not> connected (step s e)"
  by (cases e)
     (simp_all add: sendCommand_def Let_def handleMessage_def timeout_def disconnect_def
        onclose_def split: option.splits)

lemma run_keeps_not_connected: "\<not> connected s \<Longrightarrow> \<not> connected (run s evs)"
  by (induction evs arbitrary: s) (simp_all add: step_keeps_not_connected)

subsection \<open>Retirements\<close>

lemma removed_set: "set (removed b a) = fst ` set b - fst ` set a"
  by (auto simp: removed_def map_of_eq_None_iff)

lemma removed_distinct: "distinct (map fst b) \<Longrightarrow> distinct (removed b a)"
  by (simp add: removed_def)

lemma tags_between_same [simp]: "tags_between n n = []"
  by (simp add: tags_between_def)

lemma tags_between_Suc [simp]: "tags_between n (Suc n) = [tag_of (Suc n)]"
  by (simp add: tags_between_def)

lemma tags_between_split:
  "a \<le> b \<Longrightarrow> b \<le> c \<Longrightarrow>
   set (tags_between a c) = set (tags_between a b) \<union> set (tags_between b c)"
proof -
  assume "a \<le> b" "b \<le> c"
  then have "{k. a < k \<and> k \<le> c} = {k. a < k \<and> k \<le> b} \<union> {k. b < k \<and> k \<le> c}"
    by auto
  then show ?thesis by (simp add: tags_between_set image_Un)
qed

text \<open>
  What a step does to the key set, while the counter is exact: the keys that stay, the keys
  removed, the key allocated.
\<close>

lemma keys_step:
  assumes "tagCounter (step s e) < 2 ^ 53"
  shows "fst ` set (callbacks (step s e)) \<union> set (removed (callbacks s) (callbacks (step s e))) =
   fst ` set (callbacks s) \<union> set (tags_between (tagCounter s) (tagCounter (step s e)))"
proof -
  have "tagCounter s \<le> tagCounter (step s e)" by (rule tagCounter_step)
  with assms have "tagCounter s < 2 ^ 53" by simp
  then have js: "js_incr (tagCounter s) = Suc (tagCounter s)" by (rule js_incr_below)
  show ?thesis
    unfolding step_callbacks step_tagCounter removed_set js
    by (cases e) (auto simp: AList.dom_update delete_set split: option.splits)
qed

text \<open>Which event removes which tag.\<close>

lemma removed_step_cause:
  assumes "t \<in> set (removed (callbacks s) (callbacks (step s e)))"
  shows "e = Timer t \<or> (\<exists>r. e = Message (Some r) \<and> terminal r \<and> tag_or_empty r = t) \<or> e = Disconnect"
  using assms unfolding step_callbacks removed_set
  by (cases e) (auto simp: AList.dom_update delete_set split: option.splits if_splits)

lemma session_ok_keys_bounded:
  "session_ok s \<Longrightarrow> fst ` set (callbacks s) \<subseteq> set (tags_between 0 (tagCounter s))"
  by (auto simp: session_ok_def)

lemma tags_between_disjoint:
  "b \<le> c \<Longrightarrow> set (tags_between a b) \<inter> set (tags_between c d) = {}"
  by (auto simp: tags_between_set tag_of_inj)

lemma retirements_conserve:
  assumes "tagCounter (run s evs) < 2 ^ 53"
  shows "fst ` set (retirements s evs) \<union> fst ` set (callbacks (run s evs)) =
   fst ` set (callbacks s) \<union> set (tags_between (tagCounter s) (tagCounter (run s evs)))"
  using assms
proof (induction evs arbitrary: s)
  case Nil
  show ?case by simp
next
  case (Cons e es)
  let ?s' = "step s e"
  let ?R = "set (removed (callbacks s) (callbacks ?s'))"
  have le1: "tagCounter s \<le> tagCounter ?s'" by (rule tagCounter_step)
  have le2: "tagCounter ?s' \<le> tagCounter (run ?s' es)" by (rule tagCounter_run)
  from Cons.prems have b2: "tagCounter (run ?s' es) < 2 ^ 53" by simp
  with le2 have b1: "tagCounter ?s' < 2 ^ 53" by simp
  have "fst ` set (retirements s (e # es)) \<union> fst ` set (callbacks (run s (e # es))) =
        ?R \<union> (fst ` set (retirements ?s' es) \<union> fst ` set (callbacks (run ?s' es)))"
    by (auto simp: image_Un image_image)
  also have "\<dots> = ?R \<union> (fst ` set (callbacks ?s') \<union>
                set (tags_between (tagCounter ?s') (tagCounter (run ?s' es))))"
    by (simp only: Cons.IH [OF b2])
  also have "\<dots> = (fst ` set (callbacks ?s') \<union> ?R) \<union>
                set (tags_between (tagCounter ?s') (tagCounter (run ?s' es)))"
    by blast
  also have "\<dots> = fst ` set (callbacks s) \<union> (set (tags_between (tagCounter s) (tagCounter ?s')) \<union>
                set (tags_between (tagCounter ?s') (tagCounter (run ?s' es))))"
    by (simp only: keys_step [OF b1] Un_assoc)
  also have "\<dots> = fst ` set (callbacks s) \<union> set (tags_between (tagCounter s) (tagCounter (run ?s' es)))"
    by (simp only: tags_between_split [OF le1 le2])
  finally show ?case by simp
qed

lemma retirements_distinct:
  assumes "session_ok s" "tagCounter (run s evs) < 2 ^ 53"
  shows "distinct (map fst (retirements s evs)) \<and>
         fst ` set (retirements s evs) \<inter> fst ` set (callbacks (run s evs)) = {}"
  using assms
proof (induction evs arbitrary: s)
  case Nil
  show ?case by simp
next
  case (Cons e es)
  let ?s' = "step s e"
  let ?R = "removed (callbacks s) (callbacks ?s')"
  let ?new = "set (tags_between (tagCounter ?s') (tagCounter (run ?s' es)))"
  from Cons.prems(1) have ok': "session_ok ?s'" by (rule session_ok_step)
  from Cons.prems(2) have b2: "tagCounter (run ?s' es) < 2 ^ 53" by simp
  note IH = Cons.IH [OF ok' b2]
  have le1: "tagCounter s \<le> tagCounter ?s'" by (rule tagCounter_step)
  have old: "set ?R \<subseteq> set (tags_between 0 (tagCounter s))"
    using session_ok_keys_bounded [OF Cons.prems(1)] by (auto simp: removed_set)
  have gone: "set ?R \<inter> fst ` set (callbacks ?s') = {}"
    by (auto simp: removed_set)
  have "set ?R \<inter> ?new = {}"
    using old tags_between_disjoint [OF le1, of 0 "tagCounter (run ?s' es)"] by blast
  with gone have apart: "set ?R \<inter> (fst ` set (callbacks ?s') \<union> ?new) = {}" by blast
  have later: "fst ` set (retirements ?s' es) \<union> fst ` set (callbacks (run ?s' es)) =
               fst ` set (callbacks ?s') \<union> ?new"
    using b2 by (rule retirements_conserve)
  from apart later have a1: "set ?R \<inter> fst ` set (retirements ?s' es) = {}" by blast
  from apart later have a2: "set ?R \<inter> fst ` set (callbacks (run ?s' es)) = {}" by blast
  have dR: "distinct ?R"
    using Cons.prems(1) by (simp add: removed_distinct session_ok_def)
  have m: "map fst (retirements s (e # es)) = ?R @ map fst (retirements ?s' es)"
    by (simp add: comp_def)
  have "distinct (map fst (retirements s (e # es)))"
    unfolding m using dR IH a1 by (simp add: image_image)
  moreover have "fst ` set (retirements s (e # es)) \<inter> fst ` set (callbacks (run s (e # es))) = {}"
    using IH a2 by (auto simp: image_Un image_image)
  ultimately show ?case by blast
qed

lemma retirements_cause:
  "(t, e) \<in> set (retirements s evs) \<Longrightarrow>
   e \<in> set evs \<and>
   (e = Timer t \<or> (\<exists>r. e = Message (Some r) \<and> terminal r \<and> tag_or_empty r = t) \<or> e = Disconnect)"
proof (induction evs arbitrary: s)
  case Nil
  then show ?case by simp
next
  case (Cons e' es)
  from Cons.prems
  consider "e = e'" "t \<in> set (removed (callbacks s) (callbacks (step s e')))"
    | "(t, e) \<in> set (retirements (step s e') es)"
    by auto
  then show ?case
  proof cases
    case 1
    then show ?thesis using removed_step_cause [of t s e'] by simp
  next
    case 2
    from Cons.IH [OF this] show ?thesis by simp
  qed
qed

text \<open>The armed timer of a pending tag retires it.\<close>

lemma distinct_singleton: "distinct xs \<Longrightarrow> set xs = {x} \<Longrightarrow> xs = [x]"
  by (cases xs) (auto simp: insert_eq_iff dest: subset_singletonD)

lemma timer_retires_pending:
  assumes ok: "session_ok s" and t: "t \<in> fst ` set (callbacks s)"
    and armed: "t \<in> fst ` set (timers s)"
  shows "retirements s [Timer t] = [(t, Timer t)]"
proof -
  from armed have "map_of (timers s) t \<noteq> None" by (simp add: map_of_eq_None_iff)
  then have c: "callbacks (timeout s t) = AList.delete t (callbacks s)"
    by (auto simp: timeout_callbacks)
  from ok have "distinct (map fst (callbacks s))" by (simp add: session_ok_def)
  then have d: "distinct (removed (callbacks s) (AList.delete t (callbacks s)))"
    by (rule removed_distinct)
  have "set (removed (callbacks s) (AList.delete t (callbacks s))) = {t}"
    using t by (auto simp: removed_set delete_set)
  with d have "removed (callbacks s) (AList.delete t (callbacks s)) = [t]"
    by (rule distinct_singleton)
  then show ?thesis by (simp add: c)
qed

lemma tags_between_distinct: "distinct (tags_between a b)"
  by (simp add: tags_between_def distinct_map inj_on_def tag_of_inj)

text \<open>
  A pending tag has a timer armed, unless the socket refused the frame of its command: only
  the timer of a tag is taken away when it fires, and it takes the tag with it.
\<close>

lemma thrown_Cons: "thrown s (e # es) = thrown s [e] @ thrown (step s e) es"
  by simp

lemma armed_step:
  assumes "fst ` set (callbacks s) \<subseteq> X \<union> fst ` set (timers s)"
  shows "fst ` set (callbacks (step s e)) \<subseteq>
         X \<union> set (thrown s [e]) \<union> fst ` set (timers (step s e))"
proof (cases e)
  case (Send c)
  with assms show ?thesis
    by (auto simp: step_callbacks step_timers AList.dom_update simp del: step.simps)
next
  case (Message m)
  with assms show ?thesis
    by (auto simp: step_callbacks step_timers delete_set simp del: step.simps
          split: option.splits)
next
  case (Timer t)
  show ?thesis
  proof (cases "map_of (timers s) t")
    case None
    with Timer assms show ?thesis by (simp add: step_callbacks step_timers del: step.simps)
  next
    case (Some p)
    have "fst ` set (AList.delete t (callbacks s)) \<subseteq> X \<union> fst ` set (remove1 (t, p) (timers s))"
    proof
      fix k assume "k \<in> fst ` set (AList.delete t (callbacks s))"
      then have k: "k \<in> fst ` set (callbacks s)" "k \<noteq> t" by (auto simp: delete_set)
      show "k \<in> X \<union> fst ` set (remove1 (t, p) (timers s))"
      proof (cases "k \<in> X")
        case True
        then show ?thesis by simp
      next
        case False
        with k(1) assms obtain q where "(k, q) \<in> set (timers s)" by auto
        with k(2) have "(k, q) \<in> set (remove1 (t, p) (timers s))" by simp
        then show ?thesis by force
      qed
    qed
    with Timer Some show ?thesis by (simp add: step_callbacks step_timers del: step.simps)
  qed
next
  case Disconnect
  then show ?thesis by (simp add: step_callbacks del: step.simps)
next
  case Close
  with assms show ?thesis by (simp add: step_callbacks step_timers del: step.simps)
qed

lemma armed_run:
  assumes "fst ` set (callbacks s) \<subseteq> X \<union> fst ` set (timers s)"
  shows "fst ` set (callbacks (run s evs)) \<subseteq>
         X \<union> set (thrown s evs) \<union> fst ` set (timers (run s evs))"
  using assms
proof (induction evs arbitrary: s X)
  case Nil
  then show ?case by simp
next
  case (Cons e es)
  from Cons.prems have "fst ` set (callbacks (step s e)) \<subseteq>
      (X \<union> set (thrown s [e])) \<union> fst ` set (timers (step s e))"
    by (rule armed_step)
  from Cons.IH [OF this] show ?case
    by (simp only: thrown_Cons [of s e es] run_Cons set_append Un_assoc)
qed

subsection \<open>Evaluation at concrete inputs\<close>

lemma tag_of_1: "tag_of (Suc 0) = ''tag1''"
  by (simp add: tag_of_def show_nat.simps digit_char_def)

lemma tag_of_2: "tag_of (Suc (Suc 0)) = ''tag2''"
  by (simp add: tag_of_def show_nat.simps digit_char_def numeral_2_eq_2 [symmetric])

lemma show_nat_80: "show_nat 80 = ''80''"
  by (simp add: show_nat.simps digit_char_def)

lemma show_nat_401: "show_nat 401 = ''401''"
  by (simp add: show_nat.simps digit_char_def)

lemma show_nat_500: "show_nat 500 = ''500''"
  by (simp add: show_nat.simps digit_char_def)

lemma show_nat_8729: "show_nat 8729 = ''8729''"
  by (simp add: show_nat.simps digit_char_def)

lemma js_incr_0: "js_incr 0 = Suc 0"
  by (simp add: js_incr_def)

lemma js_incr_1: "js_incr (Suc 0) = Suc (Suc 0)"
  by (simp add: js_incr_def)

lemmas eval_defs = sendCommand_def handleMessage_def timeout_def disconnect_def onclose_def
  settle_def callback_def tag_or_empty_def message_or_default_def wire_message_def Let_def
  removed_def reply_def terminal_def print_interfaces_def Error_def js_incr_0 js_incr_1
  invalid_state_def

lemma open_session_ok: "session_ok open_session"
  by (simp add: session_ok_no_callbacks open_session_def new_session_def)

lemma connecting_session_eval:
  "connecting_session = open_session\<lparr>host := ''10.0.0.1'', username := ''admin'',
     password := ''secret'', port := 8728, ws := Some ''ws://10.0.0.1:8729'',
     readyState := CONNECTING\<rparr>"
  by (simp add: connecting_session_def connect_def Let_def open_session_def ws_url_def
        show_nat_8729)

text \<open>
  A command sent while the socket is connecting: it gets the tag \<open>tag1\<close>, its promise is
  rejected with the exception of the socket, nothing is sent, the tag is pending and no
  timer is armed for it.
\<close>

lemma refused_frame_eval:
  "connected connecting_session" "readyState connecting_session = CONNECTING"
  "callbacks refused_frame = [(''tag1'', 0)]" "timers refused_frame = []"
  "sent refused_frame = []" "promises refused_frame = [Some (Rejected invalid_state)]"
  "thrown connecting_session [Send print_interfaces] = [''tag1'']"
  by (simp_all add: refused_frame_def connecting_session_eval open_session_def new_session_def
        sendCommand_def settle_def Let_def js_incr_0 tag_of_1)

subsection \<open>Awaited commands\<close>

lemma promise_state_settle_other:
  "q \<noteq> p \<Longrightarrow> promise_state (settle s p v) q = promise_state s q"
  by (simp add: promise_state_def settle_other)

lemma promise_state_settle:
  "p < length (promises s) \<Longrightarrow> promise_state s p = None \<Longrightarrow> promise_state (settle s p v) p = Some v"
  by (simp add: promise_state_def settle_pending)

lemma settle_keeps:
  "promise_state s q \<noteq> None \<Longrightarrow> promise_state (settle s p v) q = promise_state s q"
  by (cases "q = p") (auto simp: promise_state_def settle_def)

lemma deliver_settled:
  "promise_state s p \<noteq> None \<Longrightarrow> deliver_until_settled s p msgs = s"
  by (cases msgs) simp_all

lemma handleMessage_Data: "rtype r = Data \<Longrightarrow> handleMessage s (Some r) = s"
  by (simp add: handleMessage_def callback_def split: option.splits)

lemma handleMessage_terminal:
  assumes "map_of (callbacks s) (tag_or_empty r) = Some p" "terminal r"
  shows "handleMessage s (Some r) =
     (callback s p r)\<lparr>callbacks := AList.delete (tag_or_empty r) (callbacks s)\<rparr>"
  using assms by (auto simp: handleMessage_def terminal_def)

lemma deliver_data:
  "\<forall>d \<in> set ds. rtype d = Data \<Longrightarrow> promise_state s p = None \<Longrightarrow>
   deliver_until_settled s p (map Some ds @ msgs) = deliver_until_settled s p msgs"
  by (induction ds) (simp_all add: handleMessage_Data)

lemma await_settled:
  "promise_state s p \<noteq> None \<Longrightarrow> await s p msgs = (promise_state s p, s)"
  by (simp add: await_def deliver_settled)

lemma submit_not_connected:
  assumes "ws s = None \<or> \<not> connected s"
  shows "submit s c msgs = (Some (Rejected (Error ''Not connected to RouterOS'')),
     s\<lparr>promises := promises s @ [Some (Rejected (Error ''Not connected to RouterOS''))]\<rparr>)"
proof -
  let ?s1 = "s\<lparr>promises := promises s @ [Some (Rejected (Error ''Not connected to RouterOS''))]\<rparr>"
  have "promise_state ?s1 (length (promises s)) = Some (Rejected (Error ''Not connected to RouterOS''))"
    by (simp add: promise_state_def)
  then show ?thesis
    by (simp add: submit_def sendCommand_not_connected [OF assms] await_settled)
qed

text \<open>What a terminal reply bearing the tag of a command just sent does to its promise.\<close>

lemma terminal_reply_settles:
  assumes conn: "ws s \<noteq> None" "connected s" "readyState s \<noteq> CONNECTING"
    and r: "tag_or_empty r = tag_of (js_incr (tagCounter s))" "terminal r"
  shows "promise_state (handleMessage (snd (sendCommand s c)) (Some r)) (length (promises s)) =
     Some (if rtype r = Done then Resolved r else Rejected (Error (message_or_default r)))"
    and "promise_state (snd (sendCommand s c)) (length (promises s)) = None"
proof -
  let ?p = "length (promises s)"
  let ?t = "tag_of (js_incr (tagCounter s))"
  define s1 where "s1 = snd (sendCommand s c)"
  have cb: "map_of (callbacks s1) ?t = Some ?p"
    using conn by (simp add: s1_def sendCommand_accepted AList.update_conv')
  have pend: "promise_state s1 ?p = None" and len: "?p < length (promises s1)"
    using conn by (simp_all add: s1_def sendCommand_accepted promise_state_def)
  have "handleMessage s1 (Some r) = (callback s1 ?p r)\<lparr>callbacks := AList.delete ?t (callbacks s1)\<rparr>"
    using handleMessage_terminal [of s1 r ?p] cb r by simp
  then have "promise_state (handleMessage s1 (Some r)) ?p =
     Some (if rtype r = Done then Resolved r else Rejected (Error (message_or_default r)))"
    using r(2) pend len
    by (auto simp: promise_state_def callback_def terminal_def settle_def)
  then show "promise_state (handleMessage (snd (sendCommand s c)) (Some r)) ?p =
     Some (if rtype r = Done then Resolved r else Rejected (Error (message_or_default r)))"
    by (simp add: s1_def)
  from pend show "promise_state (snd (sendCommand s c)) ?p = None" by (simp add: s1_def)
qed

text \<open>Data replies, then a terminal reply that bears the tag of the awaited command.\<close>

lemma submit_replied:
  assumes conn: "ws s \<noteq> None" "connected s" "readyState s \<noteq> CONNECTING"
    and ds: "\<forall>d \<in> set ds. rtype d = Data"
    and r: "tag_or_empty r = tag_of (js_incr (tagCounter s))" "terminal r"
  shows "fst (submit s c (map Some ds @ Some r # rest)) =
     Some (if rtype r = Done then Resolved r else Rejected (Error (message_or_default r)))"
proof -
  let ?p = "length (promises s)"
  define s1 where "s1 = snd (sendCommand s c)"
  define s2 where "s2 = handleMessage s1 (Some r)"
  have sc: "sendCommand s c = (?p, s1)"
    by (simp add: s1_def prod_eq_iff)
  have out: "promise_state s2 ?p =
     Some (if rtype r = Done then Resolved r else Rejected (Error (message_or_default r)))"
    and pend: "promise_state s1 ?p = None"
    using terminal_reply_settles [OF conn r, of c] by (simp_all add: s1_def s2_def)
  have "deliver_until_settled s1 ?p (map Some ds @ Some r # rest) =
        deliver_until_settled s1 ?p (Some r # rest)"
    using ds pend by (rule deliver_data)
  also have "\<dots> = deliver_until_settled s2 ?p rest"
    using pend by (simp add: s2_def)
  also have "\<dots> = s2"
    using out by (simp add: deliver_settled)
  finally have d: "deliver_until_settled s1 ?p (map Some ds @ Some r # rest) = s2" .
  show ?thesis
    using out by (simp add: submit_def sc await_def d)
qed

lemma handleMessage_length [simp]: "length (promises (handleMessage s m)) = length (promises s)"
  by (simp add: handleMessage_def Let_def split: option.splits)

lemma callback_keeps:
  "promise_state s q \<noteq> None \<Longrightarrow> promise_state (callback s p r) q = promise_state s q"
  by (simp add: callback_def settle_keeps)

lemma promise_state_callbacks_update [simp]:
  "promise_state (s\<lparr>callbacks := cb\<rparr>) q = promise_state s q"
  by (simp add: promise_state_def)

lemma handleMessage_keeps:
  "promise_state s q \<noteq> None \<Longrightarrow> promise_state (handleMessage s m) q = promise_state s q"
  by (simp add: handleMessage_def Let_def callback_keeps split: option.splits)

lemma open_session_tag: "tag_of (js_incr (tagCounter open_session)) = ''tag1''"
  by (simp add: open_session_def new_session_def tag_of_1 js_incr_0)

lemma open_session_connected:
  "ws open_session \<noteq> None" "connected open_session" "readyState open_session \<noteq> CONNECTING"
  by (simp_all add: open_session_def)

lemma reply_simps [simp]:
  "tag_or_empty (reply ty t) = t" "rtype (reply ty t) = ty" "data (reply ty t) = JUndefined"
  "message (reply ty t) = None"
  by (simp_all add: reply_def tag_or_empty_def)

lemma getInterfaces_fst:
  "fst (getInterfaces s msgs) =
     map_option (\<lambda>v. case v of Resolved response \<Rightarrow> Resolved (as_array (data response))
                       | Rejected e \<Rightarrow> Rejected e)
       (fst (submit s \<lparr>command = ''/interface/print'', arguments = None\<rparr> msgs))"
  by (simp add: getInterfaces_def split: prod.splits option.splits settled.splits)

lemma getSystemResource_fst:
  "fst (getSystemResource s msgs) =
     map_option (\<lambda>v. case v of Resolved response \<Rightarrow> Resolved (data response)
                       | Rejected e \<Rightarrow> Rejected e)
       (fst (submit s \<lparr>command = ''/system/resource/print'', arguments = None\<rparr> msgs))"
  by (simp add: getSystemResource_def split: prod.splits option.splits settled.splits)

subsection \<open>Commands awaited while anything may happen\<close>

lemma run_until_settled_settled:
  "promise_state s p \<noteq> None \<Longrightarrow> run_until_settled s p evs = s"
  by (cases evs) simp_all

lemma run_until_settled_step:
  "promise_state s p = None \<Longrightarrow> run_until_settled s p (e # es) = run_until_settled (step s e) p es"
  by simp

text \<open>The wait ends after some of the events.\<close>

lemma run_until_settled_prefix: "\<exists>k. run_until_settled s p evs = run s (take k evs)"
proof (induction evs arbitrary: s)
  case Nil
  show ?case by simp
next
  case (Cons e es)
  show ?case
  proof (cases "promise_state s p = None")
    case True
    from Cons.IH [of "step s e"] obtain k where
      "run_until_settled (step s e) p es = run (step s e) (take k es)" by blast
    with True have "run_until_settled s p (e # es) = run s (take (Suc k) (e # es))" by simp
    then show ?thesis by blast
  next
    case False
    then have "run_until_settled s p (e # es) = run s (take 0 (e # es))" by simp
    then show ?thesis by blast
  qed
qed

text \<open>The wait of \<open>await\<close> is the wait for these events: the frames, then the timer of the promise.\<close>

lemma deliver_timers [simp]: "timers (deliver_until_settled s p msgs) = timers s"
  by (induction msgs arbitrary: s) simp_all

lemma run_until_settled_frames:
  "run_until_settled s p (map Message msgs @ rest) =
   run_until_settled (deliver_until_settled s p msgs) p rest"
proof (induction msgs arbitrary: s)
  case Nil
  show ?case by simp
next
  case (Cons m ms)
  show ?case
  proof (cases "promise_state s p = None")
    case True
    with Cons.IH [of "handleMessage s m"] show ?thesis by simp
  next
    case False
    then show ?thesis by (simp add: run_until_settled_settled)
  qed
qed

lemma run_until_settled_frames_only:
  "run_until_settled s p (map Message msgs) = deliver_until_settled s p msgs"
  using run_until_settled_frames [of s p msgs "[]"] by simp

lemma await_as_events:
  "await s p msgs =
   await_events s p (map Message msgs @ (case timer_of s p of None \<Rightarrow> [] | Some t \<Rightarrow> [Timer t]))"
proof -
  define s1 where "s1 = deliver_until_settled s p msgs"
  have tm: "timer_of s1 p = timer_of s p"
    by (simp add: timer_of_def s1_def)
  show ?thesis
  proof (cases "promise_state s1 p = None")
    case False
    then show ?thesis
      by (simp add: await_def await_events_def run_until_settled_frames s1_def [symmetric]
            run_until_settled_settled)
  next
    case True
    then show ?thesis
      by (cases "timer_of s p")
         (simp_all add: await_def await_events_def run_until_settled_frames
            run_until_settled_frames_only s1_def [symmetric] tm)
  qed
qed

text \<open>The outcome of a command, by what happens to it.\<close>

lemma command_outcome_fst:
  "fst (command_outcome s c evs) =
     promise_state (run_until_settled (snd (sendCommand s c)) (length (promises s)) evs)
       (length (promises s))"
proof -
  obtain p s1 where sc: "sendCommand s c = (p, s1)" by force
  with sendCommand_fst [of s c] have "p = length (promises s)" by simp
  with sc show ?thesis by (simp add: command_outcome_def await_events_def Let_def)
qed

lemma command_outcome_not_connected:
  assumes "ws s = None \<or> \<not> connected s"
  shows "fst (command_outcome s c evs) = Some (Rejected (JsError ''Error'' ''Not connected to RouterOS''))"
proof -
  let ?s1 = "snd (sendCommand s c)"
  have "promise_state ?s1 (length (promises s)) =
      Some (Rejected (JsError ''Error'' ''Not connected to RouterOS''))"
    by (simp add: sendCommand_not_connected [OF assms] promise_state_def Error_def)
  then show ?thesis
    by (simp add: command_outcome_fst run_until_settled_settled)
qed

lemma command_outcome_snd:
  "snd (command_outcome s c evs) =
     run_until_settled (snd (sendCommand s c)) (length (promises s)) evs"
proof -
  obtain p s1 where sc: "sendCommand s c = (p, s1)" by force
  with sendCommand_fst [of s c] have "p = length (promises s)" by simp
  with sc show ?thesis by (simp add: command_outcome_def await_events_def Let_def)
qed

lemma command_outcome_refused:
  assumes "ws s \<noteq> None" "connected s" "readyState s = CONNECTING"
  shows "fst (command_outcome s c evs) = Some (Rejected invalid_state)"
proof -
  let ?s1 = "snd (sendCommand s c)"
  have "promise_state ?s1 (length (promises s)) = Some (Rejected invalid_state)"
    by (simp add: sendCommand_refused [OF assms] promise_state_def)
  then show ?thesis
    by (simp add: command_outcome_fst run_until_settled_settled)
qed

lemma run_until_settled_data:
  "\<forall>d \<in> set ds. rtype d = Data \<Longrightarrow> promise_state s p = None \<Longrightarrow>
   run_until_settled s p (map (\<lambda>d. Message (Some d)) ds @ evs) = run_until_settled s p evs"
  by (induction ds) (simp_all add: handleMessage_Data)

lemma command_outcome_replied:
  assumes conn: "ws s \<noteq> None" "connected s" "readyState s \<noteq> CONNECTING"
    and ds: "\<forall>d \<in> set ds. rtype d = Data"
    and r: "tag_or_empty r = tag_of (js_incr (tagCounter s))" "terminal r"
  shows "fst (command_outcome s c (map (\<lambda>d. Message (Some d)) ds @ Message (Some r) # evs)) =
     Some (if rtype r = Done then Resolved r
           else Rejected (JsError ''Error'' (message_or_default r)))"
    and "snd (command_outcome s c (map (\<lambda>d. Message (Some d)) ds @ Message (Some r) # evs)) =
     handleMessage (snd (sendCommand s c)) (Some r)"
proof -
  let ?p = "length (promises s)"
  define s1 where "s1 = snd (sendCommand s c)"
  define s2 where "s2 = handleMessage s1 (Some r)"
  have out: "promise_state s2 ?p =
     Some (if rtype r = Done then Resolved r else Rejected (Error (message_or_default r)))"
    and pend: "promise_state s1 ?p = None"
    using terminal_reply_settles [OF conn r, of c] by (simp_all add: s1_def s2_def)
  have "run_until_settled s1 ?p (map (\<lambda>d. Message (Some d)) ds @ Message (Some r) # evs) =
        run_until_settled s1 ?p (Message (Some r) # evs)"
    using ds pend by (rule run_until_settled_data)
  also have "\<dots> = run_until_settled s2 ?p evs"
    using pend by (simp add: s2_def)
  also have "\<dots> = s2"
    using out by (simp add: run_until_settled_settled)
  finally have fin: "run_until_settled s1 ?p
      (map (\<lambda>d. Message (Some d)) ds @ Message (Some r) # evs) = s2" .
  show "fst (command_outcome s c (map (\<lambda>d. Message (Some d)) ds @ Message (Some r) # evs)) =
     Some (if rtype r = Done then Resolved r
           else Rejected (JsError ''Error'' (message_or_default r)))"
    using out fin by (simp add: command_outcome_fst s1_def [symmetric] Error_def)
  show "snd (command_outcome s c (map (\<lambda>d. Message (Some d)) ds @ Message (Some r) # evs)) =
     handleMessage (snd (sendCommand s c)) (Some r)"
    using fin by (simp add: command_outcome_snd s1_def [symmetric] s2_def)
qed

lemma command_outcome_timeout:
  assumes conn: "ws s \<noteq> None" "connected s" "readyState s \<noteq> CONNECTING"
    and ds: "\<forall>d \<in> set ds. rtype d = Data"
    and fresh: "map_of (timers s) (tag_of (js_incr (tagCounter s))) = None"
  shows "fst (command_outcome s c
            (map (\<lambda>d. Message (Some d)) ds @ Timer (tag_of (js_incr (tagCounter s))) # evs)) =
     Some (Rejected (JsError ''Error'' ''Command timeout''))"
proof -
  let ?p = "length (promises s)"
  let ?t = "tag_of (js_incr (tagCounter s))"
  define s1 where "s1 = snd (sendCommand s c)"
  define s2 where "s2 = timeout s1 ?t"
  have cb: "map_of (callbacks s1) ?t = Some ?p"
    using conn by (simp add: s1_def sendCommand_accepted AList.update_conv')
  have tm: "map_of (timers s1) ?t = Some ?p"
    using conn fresh by (simp add: s1_def sendCommand_accepted map_add_def)
  have pend: "promise_state s1 ?p = None" and len: "?p < length (promises s1)"
    using conn by (simp_all add: s1_def sendCommand_accepted promise_state_def)
  have out: "promise_state s2 ?p = Some (Rejected (JsError ''Error'' ''Command timeout''))"
    using cb tm pend len
    by (simp add: s2_def timeout_def promise_state_def settle_def Error_def)
  have "run_until_settled s1 ?p (map (\<lambda>d. Message (Some d)) ds @ Timer ?t # evs) =
        run_until_settled s1 ?p (Timer ?t # evs)"
    using ds pend by (rule run_until_settled_data)
  also have "\<dots> = run_until_settled s2 ?p evs"
    using pend by (simp add: s2_def)
  also have "\<dots> = s2"
    using out by (simp add: run_until_settled_settled)
  finally show ?thesis
    using out by (simp add: command_outcome_fst s1_def [symmetric])
qed

lemma succeeded_fst:
  "fst (succeeded s c evs) =
     map_option (\<lambda>v. Resolved (case v of Resolved response \<Rightarrow> True | Rejected e \<Rightarrow> False))
       (fst (command_outcome s c evs))"
  by (simp add: succeeded_def split: prod.splits option.splits settled.splits)

subsection \<open>After disconnect\<close>

lemma step_after_disconnect:
  assumes "callbacks s = []" "ws s = None"
  shows "callbacks (step s e) = [] \<and> ws (step s e) = None \<and>
     (\<exists>xs. promises (step s e) = promises s @ xs)"
proof (cases e)
  case (Send c)
  with assms show ?thesis by (simp add: sendCommand_not_connected)
next
  case (Message m)
  with assms show ?thesis by (simp add: handleMessage_def split: option.splits)
next
  case (Timer t)
  with assms show ?thesis by (simp add: timeout_def split: option.splits)
next
  case Disconnect
  with assms show ?thesis by (simp add: disconnect_def)
next
  case Close
  with assms show ?thesis by (simp add: onclose_def)
qed

lemma run_after_disconnect:
  assumes "callbacks s = []" "ws s = None"
  shows "callbacks (run s evs) = [] \<and> ws (run s evs) = None \<and>
     (\<exists>xs. promises (run s evs) = promises s @ xs)"
  using assms
proof (induction evs arbitrary: s)
  case Nil
  then show ?case by simp
next
  case (Cons e es)
  from step_after_disconnect [OF Cons.prems, of e]
  obtain xs where 1: "callbacks (step s e) = []" "ws (step s e) = None"
    and xs: "promises (step s e) = promises s @ xs"
    by blast
  from Cons.IH [OF 1] obtain ys where
    "callbacks (run (step s e) es) = []" "ws (run (step s e) es) = None"
    "promises (run (step s e) es) = promises (step s e) @ ys"
    by blast
  with xs show ?case by simp
qed

subsection \<open>The connect methods\<close>

lemma login_fst:
  "fst (login s msgs) =
     map_option (\<lambda>v. case v of Resolved response \<Rightarrow> rtype response = Done | Rejected e \<Rightarrow> False)
       (fst (submit s \<lparr>command = ''/login'',
               arguments = Some [(''name'', username s), (''password'', password s)]\<rparr> msgs))"
  by (simp add: login_def split: prod.splits option.splits settled.splits)

lemma connect_OpenEvent_fst:
  "fst (connect s h u pw prt (OpenEvent msgs)) =
     map_option Resolved
       (fst (login (s\<lparr>host := h, username := u, password := pw, port := prt,
                      ws := Some (ws_url h prt), readyState := OPEN\<rparr>) msgs))"
  by (simp add: connect_def split: prod.splits option.splits)

lemma connect_OpenEvent_not_Rejected:
  "fst (connect s h u pw prt (OpenEvent msgs)) \<noteq> Some (Rejected e)"
  by (simp add: connect_OpenEvent_fst)

text \<open>The login is refused locally when the flag is not set: no frame is sent.\<close>

lemma connect_OpenEvent_not_connected:
  assumes "\<not> connected s"
  shows "fst (connect s h u pw prt (OpenEvent msgs)) = Some (Resolved False)"
    and "sent (snd (connect s h u pw prt (OpenEvent msgs))) = sent s"
    and "\<not> connected (snd (connect s h u pw prt (OpenEvent msgs)))"
  using assms by (simp_all add: connect_def login_def submit_not_connected)

lemma connect_OpenEvent_refused:
  assumes "connected s" "tag_or_empty r = tag_of (js_incr (tagCounter s))"
    "rtype r = Trap \<or> rtype r = Fatal"
  shows "fst (connect s h u pw prt (OpenEvent (Some r # rest))) = Some (Resolved False)"
proof -
  let ?s1 = "s\<lparr>host := h, username := u, password := pw, port := prt, ws := Some (ws_url h prt),
    readyState := OPEN\<rparr>"
  have tr: "terminal r" using assms(3) by (auto simp: terminal_def)
  have "fst (submit ?s1 c (map Some [] @ Some r # rest)) =
     Some (if rtype r = Done then Resolved r else Rejected (Error (message_or_default r)))" for c
    by (rule submit_replied) (use assms tr in simp_all)
  with assms(3) show ?thesis
    by (auto simp: connect_OpenEvent_fst login_fst)
qed

text \<open>
  \<open>connect\<close> never sets the flag from a state where it is not set: \<open>login\<close> runs before the
  handler of the \<open>open\<close> event stores its result in \<open>connected\<close>, and \<open>sendCommand\<close> refuses the
  login while \<open>connected\<close> is not set. So a state with the flag set is not reached from a new
  object by \<open>connect\<close> and events. The claims about pending commands are about states with
  the flag set, the states the class is written to work in: their theorems are stated for
  every state, or for every state that satisfies the hypotheses they name, and their
  concrete inputs start from \<open>open_session\<close>, a state with the flag set and the socket open.
\<close>

lemma connect_keeps_not_connected:
  "\<not> connected s \<Longrightarrow> \<not> connected (snd (connect s h u pw prt behaviour))"
  by (cases behaviour) (simp_all add: connect_def login_def submit_not_connected)

lemma http_connect_fst:
  "fst (http_connect a h u pw prt useHttps outcome) =
     (case outcome of
        NetworkError e \<Rightarrow> Rejected (Error (''Connection failed: '' @ error_to_string e))
      | Response ok status statusText body \<Rightarrow>
          if ok then Resolved True
          else Rejected (Error (''Connection failed: ''
                  @ error_to_string (http_status_error status statusText))))"
  by (simp add: http_connect_def Let_def split: fetch_outcome.splits)

lemma http_connect_snd:
  "snd (http_connect a h u pw prt useHttps outcome) =
     a\<lparr>baseUrl := rest_url useHttps h prt, http_username := u, http_password := pw,
       fetched := fetched a @ [(''GET'', rest_url useHttps h prt @ ''/system/resource'')]\<rparr>"
  by (simp add: http_connect_def Let_def split: fetch_outcome.splits)

lemma http_connect_not_False:
  "fst (http_connect a h u pw prt useHttps outcome) \<noteq> Resolved False"
  by (simp add: http_connect_fst split: fetch_outcome.splits)

lemma makeRequest_fetched:
  "fetched (snd (makeRequest a endpoint meth outcome)) = fetched a @ [(meth, baseUrl a @ endpoint)]"
  by (simp add: makeRequest_def Let_def split: fetch_outcome.splits sum.splits)

lemma http_fallback_alt:
  "http_fallback m h u pw prt useHttps net =
     (let c = http_connect (httpApi m) h u pw (port_or prt 80) useHttps (http_open net);
          g = http_getSystemResource (snd c) (http_probe net)
      in case fst c of
           Rejected e \<Rightarrow> (Rejected wsError_not_defined, m\<lparr>httpApi := snd c\<rparr>)
         | Resolved ok \<Rightarrow>
             if ok then
               (case fst g of
                  Rejected e \<Rightarrow>
                    (Rejected wsError_not_defined, m\<lparr>httpApi := snd g, currentApi := Some HTTP\<rparr>)
                | Resolved info \<Rightarrow>
                    (Resolved \<lparr>success = True, connect_method = Some ''HTTP REST API'',
                               error = None, systemInfo = Some info\<rparr>,
                     m\<lparr>httpApi := snd g, currentApi := Some HTTP\<rparr>))
             else (Resolved \<lparr>success = False, connect_method = None,
                              error = Some ''No API method available'', systemInfo = None\<rparr>,
                   m\<lparr>httpApi := snd c\<rparr>))"
proof -
  obtain r a where c: "http_connect (httpApi m) h u pw (port_or prt 80) useHttps (http_open net) = (r, a)"
    by (cases "http_connect (httpApi m) h u pw (port_or prt 80) useHttps (http_open net)")
  obtain r' a' where g: "http_getSystemResource a (http_probe net) = (r', a')"
    by (cases "http_getSystemResource a (http_probe net)")
  show ?thesis
    by (cases r; cases r') (simp_all add: http_fallback_def c g)
qed

lemma http_fallback_fst:
  "fst (http_fallback m h u pw prt useHttps net) =
     (case fst (http_connect (httpApi m) h u pw (port_or prt 80) useHttps (http_open net)) of
        Rejected e \<Rightarrow> Rejected wsError_not_defined
      | Resolved c \<Rightarrow>
          if c then
            (case fst (http_getSystemResource
                    (snd (http_connect (httpApi m) h u pw (port_or prt 80) useHttps (http_open net)))
                    (http_probe net)) of
               Rejected e \<Rightarrow> Rejected wsError_not_defined
             | Resolved info \<Rightarrow>
                 Resolved \<lparr>success = True, connect_method = Some ''HTTP REST API'', error = None,
                           systemInfo = Some info\<rparr>)
          else Resolved \<lparr>success = False, connect_method = None,
                          error = Some ''No API method available'', systemInfo = None\<rparr>)"
  by (simp add: http_fallback_alt Let_def split: settled.split)

lemma http_fallback_fetched:
  "(''GET'', rest_url useHttps h (port_or prt 80) @ ''/system/resource'')
     \<in> set (fetched (httpApi (snd (http_fallback m h u pw prt useHttps net))))"
  by (simp add: http_fallback_alt Let_def http_getSystemResource_def makeRequest_fetched
        http_connect_snd split: settled.split)

lemma http_fallback_currentApi:
  "currentApi (snd (http_fallback m h u pw prt useHttps net)) =
     (if fst (http_connect (httpApi m) h u pw (port_or prt 80) useHttps (http_open net)) = Resolved True
      then Some HTTP else currentApi m)"
  by (simp add: http_fallback_alt Let_def split: settled.split)

text \<open>The manager's connect, by the outcome of the WebSocket attempt.\<close>

lemma manager_connect_alt:
  "manager_connect m h u pw prt useHttps net =
     (let m0 = m\<lparr>config := Some \<lparr>cfg_host = h, cfg_username = u, cfg_password = pw,
                    cfg_port = port_or prt 8728, cfg_useHttps = useHttps\<rparr>\<rparr>;
          c = connect (wsApi m) h u pw (port_or prt 8728) (ws_open net);
          g = getSystemResource (snd c) (ws_probe net);
          fallback = (\<lambda>m'. (Some (fst (http_fallback m' h u pw prt useHttps net)),
                              snd (http_fallback m' h u pw prt useHttps net)))
      in case fst c of
           None \<Rightarrow> (None, m0\<lparr>wsApi := snd c\<rparr>)
         | Some (Rejected wsError) \<Rightarrow> fallback (m0\<lparr>wsApi := snd c\<rparr>)
         | Some (Resolved wsConnected) \<Rightarrow>
             if wsConnected then
               (case fst g of
                  None \<Rightarrow> (None, m0\<lparr>wsApi := snd g, currentApi := Some WS\<rparr>)
                | Some (Rejected wsError) \<Rightarrow> fallback (m0\<lparr>wsApi := snd g, currentApi := Some WS\<rparr>)
                | Some (Resolved info) \<Rightarrow>
                    (Some (Resolved \<lparr>success = True, connect_method = Some ''WebSocket API'',
                                      error = None, systemInfo = Some info\<rparr>),
                     m0\<lparr>wsApi := snd g, currentApi := Some WS\<rparr>))
             else fallback (m0\<lparr>wsApi := snd c\<rparr>))"
proof -
  obtain r w where c: "connect (wsApi m) h u pw (port_or prt 8728) (ws_open net) = (r, w)"
    by (cases "connect (wsApi m) h u pw (port_or prt 8728) (ws_open net)")
  obtain r' w' where g: "getSystemResource w (ws_probe net) = (r', w')"
    by (cases "getSystemResource w (ws_probe net)")
  show ?thesis
    by (simp add: manager_connect_def c g Let_def
          split: option.split settled.split prod.split)
qed

subsection \<open>The manager at concrete networks\<close>

lemmas manager_eval = manager_connect_alt http_fallback_alt connect_def http_connect_def
  http_getSystemResource_def makeRequest_def rest_url_def ws_url_def port_or_def Let_def
  new_manager_def new_session_def new_http_def http_status_error_def Error_def
  wsError_not_defined_def show_nat_80 show_nat_401 show_nat_500 show_nat_8729
  ok_response_def unauthorized_def failed_to_fetch_def

lemma unreachable_eval:
  "fst (connect (wsApi new_manager) ''10.0.0.1'' ''admin'' ''secret'' 8728 (ws_open unreachable)) =
     Some (Rejected (Error ''WebSocket connection failed''))"
  "fst (http_connect (httpApi new_manager) ''10.0.0.1'' ''admin'' ''secret'' 80 False
          (http_open unreachable)) =
     Rejected (Error ''Connection failed: TypeError: Failed to fetch'')"
  "fst (manager_connect new_manager ''10.0.0.1'' ''admin'' ''secret'' None False unreachable) =
     Some (Rejected wsError_not_defined)"
  by (simp_all add: manager_eval unreachable_def)

lemma after_rest_connect_eval:
  "after_rest_connect =
     \<lparr>wsApi = new_session\<lparr>ws := Some ''ws://10.0.0.1:8729'', host := ''10.0.0.1'',
          username := ''admin'', password := ''secret''\<rparr>,
      httpApi = \<lparr>baseUrl = ''http://10.0.0.1:80/rest'', http_username = ''admin'',
          http_password = ''secret'', sessionId = [],
          fetched = [(''GET'', ''http://10.0.0.1:80/rest/system/resource''),
                     (''GET'', ''http://10.0.0.1:80/rest/system/resource'')]\<rparr>,
      currentApi = Some HTTP,
      config = Some \<lparr>cfg_host = ''10.0.0.1'', cfg_username = ''admin'', cfg_password = ''secret'',
          cfg_port = 8728, cfg_useHttps = False\<rparr>\<rparr>"
  by (simp add: after_rest_connect_def manager_eval rest_only_def)

lemma rest_only_eval:
  "fst (manager_connect new_manager ''10.0.0.1'' ''admin'' ''secret'' None False rest_only) =
     Some (Resolved \<lparr>success = True, connect_method = Some ''HTTP REST API'', error = None,
                      systemInfo = Some resource\<rparr>)"
  by (simp add: manager_eval rest_only_def)

lemma after_refusal_eval:
  "currentApi after_refusal = Some HTTP"
  "http_password (httpApi after_refusal) = ''wrong''"
  "fst (manager_connect after_rest_connect ''10.0.0.1'' ''admin'' ''wrong'' None False rest_refuses) =
     Some (Rejected wsError_not_defined)"
  "fst (http_connect (httpApi after_rest_connect) ''10.0.0.1'' ''admin'' ''wrong'' 80 False
          (http_open rest_refuses)) =
     Rejected (Error ''Connection failed: Error: HTTP 401: Unauthorized'')"
  by (simp_all add: after_refusal_def after_rest_connect_eval manager_eval rest_refuses_def)

lemma rest_probe_fails_eval:
  "fst (http_connect (httpApi new_manager) ''10.0.0.1'' ''admin'' ''secret'' 80 False
          (http_open rest_probe_fails)) = Resolved True"
  "fst (manager_connect new_manager ''10.0.0.1'' ''admin'' ''secret'' None False rest_probe_fails) =
     Some (Rejected wsError_not_defined)"
  "currentApi (snd (manager_connect new_manager ''10.0.0.1'' ''admin'' ''secret'' None False
     rest_probe_fails)) = Some HTTP"
  by (simp_all add: manager_eval rest_probe_fails_def)

lemmas session_eval = login_def getSystemResource_def submit_def await_def promise_state_def
  timer_of_def eval_defs tag_of_1 tag_of_2 open_session_def flagged_manager_def
  login_refused_def resource_def

lemma login_trap_eval:
  "fst (connect (wsApi flagged_manager) ''10.0.0.1'' ''admin'' ''secret'' 8728 (ws_open login_trap)) =
     Some (Resolved False)"
  "fst (manager_connect flagged_manager ''10.0.0.1'' ''admin'' ''secret'' None False login_trap) =
     Some (Resolved \<lparr>success = True, connect_method = Some ''HTTP REST API'', error = None,
                      systemInfo = Some resource\<rparr>)"
  "fetched (httpApi (snd (manager_connect flagged_manager ''10.0.0.1'' ''admin'' ''secret'' None
      False login_trap))) =
     [(''GET'', ''http://10.0.0.1:80/rest/system/resource''),
      (''GET'', ''http://10.0.0.1:80/rest/system/resource'')]"
  "sent (wsApi (snd (manager_connect flagged_manager ''10.0.0.1'' ''admin'' ''secret'' None
      False login_trap))) =
     [[(''command'', ''/login''), (''tag'', ''tag1''), (''name'', ''admin''),
       (''password'', ''secret'')]]"
  "promises (wsApi (snd (manager_connect flagged_manager ''10.0.0.1'' ''admin'' ''secret'' None
      False login_trap))) =
     [Some (Rejected (Error ''invalid user name or password (6)''))]"
  by (simp_all add: manager_eval session_eval login_trap_def)

lemma ws_works_eval:
  "fst (connect (wsApi flagged_manager) ''10.0.0.1'' ''admin'' ''secret'' 8728 (ws_open ws_works)) =
     Some (Resolved True)"
  "fst (getSystemResource
     (snd (connect (wsApi flagged_manager) ''10.0.0.1'' ''admin'' ''secret'' 8728 (ws_open ws_works)))
     (ws_probe ws_works)) = Some (Resolved resource)"
  "fst (manager_connect flagged_manager ''10.0.0.1'' ''admin'' ''secret'' None False ws_works) =
     Some (Resolved \<lparr>success = True, connect_method = Some ''WebSocket API'', error = None,
                      systemInfo = Some resource\<rparr>)"
  "httpApi (snd (manager_connect flagged_manager ''10.0.0.1'' ''admin'' ''secret'' None False
      ws_works)) = new_http"
  by (simp_all add: manager_eval session_eval ws_works_def)

lemma ws_probe_trap_eval:
  "fst (connect (wsApi flagged_manager) ''10.0.0.1'' ''admin'' ''secret'' 8728
     (ws_open ws_probe_trap)) = Some (Resolved True)"
  "fst (getSystemResource
     (snd (connect (wsApi flagged_manager) ''10.0.0.1'' ''admin'' ''secret'' 8728
        (ws_open ws_probe_trap)))
     (ws_probe ws_probe_trap)) = Some (Rejected (Error ''Command failed''))"
  "fst (manager_connect flagged_manager ''10.0.0.1'' ''admin'' ''secret'' None False
     ws_probe_trap) =
     Some (Resolved \<lparr>success = True, connect_method = Some ''HTTP REST API'', error = None,
                      systemInfo = Some resource\<rparr>)"
  by (simp_all add: manager_eval session_eval ws_probe_trap_def)

subsection \<open>The manager never reports a failure\<close>

text \<open>
  The REST client's \<open>connect\<close> returns \<open>true\<close> or throws, so the last \<open>return\<close> of the manager's
  \<open>connect\<close> is never reached; and the \<open>return\<close> inside the second \<open>catch\<close> block is never reached
  either, since the template string before it throws. Whenever the manager's \<open>connect\<close> returns
  a result, the result is a success.
\<close>

lemma manager_connect_never_reports_failure:
  assumes "fst (manager_connect m h u pw prt useHttps net) = Some (Resolved r)"
  shows "success r"
proof -
  have fb: "fst (http_fallback m' h u pw prt useHttps net) = Resolved r \<Longrightarrow> success r" for m'
    using http_connect_not_False [of "httpApi m'" h u pw "port_or prt 80" useHttps "http_open net"]
    by (auto simp: http_fallback_fst split: settled.splits if_splits)
  from assms show ?thesis
    by (auto simp: manager_connect_alt Let_def split: option.splits settled.splits if_splits
          dest: fb)
qed

lemma http_fallback_fst_updates [simp]:
  "fst (http_fallback (m\<lparr>config := c, wsApi := w\<rparr>) h u pw prt useHttps net) =
     fst (http_fallback m h u pw prt useHttps net)"
  "fst (http_fallback (m\<lparr>config := c, wsApi := w, currentApi := x\<rparr>) h u pw prt useHttps net) =
     fst (http_fallback m h u pw prt useHttps net)"
  by (simp_all add: http_fallback_fst cong: settled.case_cong if_cong)

lemma manager_connect_http_rejected:
  assumes "fst (connect (wsApi m) h u pw (port_or prt 8728) (ws_open net)) = Some (Rejected e)"
    and "fst (http_connect (httpApi m) h u pw (port_or prt 80) useHttps (http_open net)) = Rejected e'"
  shows "fst (manager_connect m h u pw prt useHttps net) = Some (Rejected wsError_not_defined)"
  using assms by (simp add: manager_connect_alt Let_def http_fallback_fst)

section \<open>The claims\<close>

subsection \<open>C1: a tag is retired at most once\<close>




subsection \<open>C2: data replies and the done reply\<close>

text \<open>
  C2, as stated, fails. One command is sent; a data reply with the payload \<open>ether1\<close> and
  then a done reply without data arrive for its tag. \<open>getInterfaces\<close> resolves with the list
  holding \<open>undefined\<close>, the \<open>data\<close> of the done reply, and not with the list of the payloads.
\<close>

theorem data_payload_not_accumulated:
  "fst (getInterfaces open_session data_then_done) = Some (Resolved [JUndefined]) \<and>
   fst (getInterfaces open_session data_then_done) \<noteq> Some (Resolved [ether1])"
proof -
  have "fst (submit open_session \<lparr>command = ''/interface/print'', arguments = None\<rparr>
          (map Some [(reply Data ''tag1'')\<lparr>data := ether1\<rparr>] @ Some (reply Done ''tag1'') # [])) =
        Some (Resolved (reply Done ''tag1''))"
    by (subst submit_replied)
       (simp_all add: open_session_connected open_session_tag terminal_def reply_def
          tag_or_empty_def)
  then show ?thesis
    by (simp add: getInterfaces_fst data_then_done_def as_array_def ether1_def)
qed

text \<open>
  C2, amended. A data reply changes nothing: no list is kept for the tag and the payload is
  dropped. A done reply that bears the tag of the awaited command, whose frame the socket
  accepted, resolves the command with
  that done reply itself; \<open>getInterfaces\<close> returns the \<open>data\<close> of the done reply when it is an
  array and the one-element list holding it otherwise, and \<open>getSystemResource\<close> returns the
  \<open>data\<close> of the done reply.
\<close>

theorem data_replies_dropped_done_resolves:
  "(rtype d = Data \<longrightarrow> handleMessage s (Some d) = s) \<and>
   (ws s \<noteq> None \<and> connected s \<and> readyState s \<noteq> CONNECTING \<and>
    (\<forall>d \<in> set ds. rtype d = Data) \<and> rtype r = Done \<and>
    tag_or_empty r = tag_of (js_incr (tagCounter s)) \<longrightarrow>
      fst (submit s c (map Some ds @ [Some r])) = Some (Resolved r) \<and>
      fst (getInterfaces s (map Some ds @ [Some r])) = Some (Resolved (as_array (data r))) \<and>
      fst (getSystemResource s (map Some ds @ [Some r])) = Some (Resolved (data r)))"
proof (intro conjI impI)
  assume "rtype d = Data"
  then show "handleMessage s (Some d) = s" by (rule handleMessage_Data)
next
  assume a: "ws s \<noteq> None \<and> connected s \<and> readyState s \<noteq> CONNECTING \<and>
    (\<forall>d \<in> set ds. rtype d = Data) \<and> rtype r = Done \<and>
    tag_or_empty r = tag_of (js_incr (tagCounter s))"
  then have tr: "terminal r" by (simp add: terminal_def)
  have sub: "fst (submit s c' (map Some ds @ [Some r])) = Some (Resolved r)" for c'
    using submit_replied [of s ds r c' "[]"] a tr by simp
  show "fst (submit s c (map Some ds @ [Some r])) = Some (Resolved r)" by (rule sub)
  show "fst (getInterfaces s (map Some ds @ [Some r])) = Some (Resolved (as_array (data r)))"
    by (simp add: getInterfaces_fst sub)
  show "fst (getSystemResource s (map Some ds @ [Some r])) = Some (Resolved (data r))"
    by (simp add: getSystemResource_fst sub)
qed

theorem data_replies_dropped_done_resolves_witness:
  "rtype ((reply Data ''tag1'')\<lparr>data := ether1\<rparr>) = Data \<and>
   handleMessage one_pending (Some ((reply Data ''tag1'')\<lparr>data := ether1\<rparr>)) = one_pending \<and>
   ws open_session \<noteq> None \<and> connected open_session \<and> readyState open_session \<noteq> CONNECTING \<and>
   rtype two_interfaces = Done \<and>
   tag_or_empty two_interfaces = tag_of (js_incr (tagCounter open_session)) \<and>
   fst (getInterfaces open_session
     [Some ((reply Data ''tag1'')\<lparr>data := ether1\<rparr>), Some two_interfaces]) =
     Some (Resolved [ether1, JStr ''wlan1''])"
proof -
  let ?d = "(reply Data ''tag1'')\<lparr>data := ether1\<rparr>"
  have d: "rtype ?d = Data" by (simp add: reply_def)
  have r: "rtype two_interfaces = Done"
    "tag_or_empty two_interfaces = tag_of (js_incr (tagCounter open_session))"
    by (simp_all add: two_interfaces_def open_session_tag reply_def tag_or_empty_def)
  have arr: "as_array (data two_interfaces) = [ether1, JStr ''wlan1'']"
    by (simp add: two_interfaces_def as_array_def)
  from data_replies_dropped_done_resolves [where d = ?d and s = one_pending] d
  have 1: "handleMessage one_pending (Some ?d) = one_pending" by blast
  from data_replies_dropped_done_resolves [where s = open_session and ds = "[?d]"
      and r = two_interfaces] d r open_session_connected
  have 2: "fst (getInterfaces open_session [Some ?d, Some two_interfaces]) =
     Some (Resolved (as_array (data two_interfaces)))"
    by simp
  from d 1 r open_session_connected 2 show ?thesis unfolding arr by blast
qed

subsection \<open>C3: a refused login\<close>

text \<open>
  C3, as stated, fails. The manager's WebSocket session has its flag set, the socket opens, the
  login is sent and the router answers it with a trap. \<open>RouterOSAPI.connect\<close> resolves with
  \<open>false\<close>: the error of the rejected login is caught in \<open>login\<close> and no kind of error reaches
  the manager. The manager then requests the REST service, twice, and returns the success of
  the HTTP method.
\<close>

theorem login_trap_then_http_attempted:
  "fst (connect (wsApi flagged_manager) ''10.0.0.1'' ''admin'' ''secret'' 8728 (ws_open login_trap)) =
     Some (Resolved False) \<and>
   promises (wsApi (snd (manager_connect flagged_manager ''10.0.0.1'' ''admin'' ''secret'' None
      False login_trap))) =
     [Some (Rejected (Error ''invalid user name or password (6)''))] \<and>
   fetched (httpApi (snd (manager_connect flagged_manager ''10.0.0.1'' ''admin'' ''secret'' None
      False login_trap))) =
     [(''GET'', ''http://10.0.0.1:80/rest/system/resource''),
      (''GET'', ''http://10.0.0.1:80/rest/system/resource'')] \<and>
   fst (manager_connect flagged_manager ''10.0.0.1'' ''admin'' ''secret'' None False login_trap) =
     Some (Resolved \<lparr>success = True, connect_method = Some ''HTTP REST API'', error = None,
                      systemInfo = Some resource\<rparr>)"
  using login_trap_eval by simp

text \<open>
  C3, amended. When the socket opens, \<open>RouterOSAPI.connect\<close> never rejects. When the login is
  sent and the first frame is a trap or fatal reply that bears its tag, it resolves with
  \<open>false\<close>: the error of the login is caught in \<open>login\<close>, and no kind of error reaches the
  manager. Whenever it resolves with \<open>false\<close>, the manager goes on to the HTTP method: the
  REST service is requested, and the result of the manager's \<open>connect\<close> is the result of
  that attempt.
\<close>

theorem failed_login_falls_back_to_http:
  assumes "ws_open net = OpenEvent msgs"
  shows
   "(\<forall>e. fst (connect (wsApi m) h u pw (port_or prt 8728) (ws_open net)) \<noteq> Some (Rejected e)) \<and>
    (connected (wsApi m) \<and>
     (\<exists>r rest. msgs = Some r # rest \<and>
        tag_or_empty r = tag_of (js_incr (tagCounter (wsApi m))) \<and>
        (rtype r = Trap \<or> rtype r = Fatal)) \<longrightarrow>
       fst (connect (wsApi m) h u pw (port_or prt 8728) (ws_open net)) = Some (Resolved False)) \<and>
    (fst (connect (wsApi m) h u pw (port_or prt 8728) (ws_open net)) = Some (Resolved False) \<longrightarrow>
       fst (manager_connect m h u pw prt useHttps net) =
         Some (fst (http_fallback m h u pw prt useHttps net)) \<and>
       (''GET'', rest_url useHttps h (port_or prt 80) @ ''/system/resource'')
         \<in> set (fetched (httpApi (snd (manager_connect m h u pw prt useHttps net)))))"
proof (intro conjI impI allI)
  fix e
  show "fst (connect (wsApi m) h u pw (port_or prt 8728) (ws_open net)) \<noteq> Some (Rejected e)"
    unfolding assms by (rule connect_OpenEvent_not_Rejected)
next
  assume a: "connected (wsApi m) \<and>
     (\<exists>r rest. msgs = Some r # rest \<and>
        tag_or_empty r = tag_of (js_incr (tagCounter (wsApi m))) \<and>
        (rtype r = Trap \<or> rtype r = Fatal))"
  then obtain r rest where "msgs = Some r # rest"
    "tag_or_empty r = tag_of (js_incr (tagCounter (wsApi m)))" "rtype r = Trap \<or> rtype r = Fatal"
    by blast
  with a show "fst (connect (wsApi m) h u pw (port_or prt 8728) (ws_open net)) = Some (Resolved False)"
    unfolding assms by (simp add: connect_OpenEvent_refused)
next
  assume f: "fst (connect (wsApi m) h u pw (port_or prt 8728) (ws_open net)) = Some (Resolved False)"
  then show "fst (manager_connect m h u pw prt useHttps net) =
         Some (fst (http_fallback m h u pw prt useHttps net))"
    by (simp add: manager_connect_alt Let_def)
  from f show "(''GET'', rest_url useHttps h (port_or prt 80) @ ''/system/resource'')
         \<in> set (fetched (httpApi (snd (manager_connect m h u pw prt useHttps net))))"
    by (simp add: manager_connect_alt Let_def http_fallback_fetched)
qed

theorem failed_login_falls_back_to_http_witness:
  "ws_open login_trap = OpenEvent [Some login_refused] \<and> connected (wsApi flagged_manager) \<and>
   tag_or_empty login_refused = tag_of (js_incr (tagCounter (wsApi flagged_manager))) \<and>
   rtype login_refused = Trap \<and>
   fst (connect (wsApi flagged_manager) ''10.0.0.1'' ''admin'' ''secret'' (port_or None 8728)
          (ws_open login_trap)) = Some (Resolved False) \<and>
   fst (manager_connect flagged_manager ''10.0.0.1'' ''admin'' ''secret'' None False login_trap) =
     Some (fst (http_fallback flagged_manager ''10.0.0.1'' ''admin'' ''secret'' None False login_trap)) \<and>
   (''GET'', rest_url False ''10.0.0.1'' (port_or None 80) @ ''/system/resource'')
     \<in> set (fetched (httpApi (snd (manager_connect flagged_manager ''10.0.0.1'' ''admin''
          ''secret'' None False login_trap))))"
proof -
  have o: "ws_open login_trap = OpenEvent [Some login_refused]" by (simp add: login_trap_def)
  have c: "connected (wsApi flagged_manager)" by (simp add: flagged_manager_def open_session_def)
  have t: "tag_or_empty login_refused = tag_of (js_incr (tagCounter (wsApi flagged_manager)))"
    by (simp add: flagged_manager_def open_session_tag login_refused_def tag_or_empty_def reply_def)
  have r: "rtype login_refused = Trap" by (simp add: login_refused_def reply_def)
  note inst = failed_login_falls_back_to_http [OF o, of flagged_manager "''10.0.0.1''" "''admin''"
      "''secret''" None False]
  from inst c t r
  have f: "fst (connect (wsApi flagged_manager) ''10.0.0.1'' ''admin'' ''secret'' (port_or None 8728)
          (ws_open login_trap)) = Some (Resolved False)"
    by blast
  with inst have "fst (manager_connect flagged_manager ''10.0.0.1'' ''admin'' ''secret'' None False
       login_trap) =
     Some (fst (http_fallback flagged_manager ''10.0.0.1'' ''admin'' ''secret'' None False login_trap)) \<and>
   (''GET'', rest_url False ''10.0.0.1'' (port_or None 80) @ ''/system/resource'')
     \<in> set (fetched (httpApi (snd (manager_connect flagged_manager ''10.0.0.1'' ''admin''
          ''secret'' None False login_trap))))"
    by blast
  with o c t r f show ?thesis by blast
qed

subsection \<open>C4: a reply without a pending command is discarded\<close>

text \<open>
  C4. A reply whose tag has no pending command leaves the whole state as it is: no promise,
  pending or settled, changes. This is so in particular for a reply that bears the tag of a
  command whose timer has fired.
\<close>

theorem reply_without_pending_command_discarded:
  "(map_of (callbacks s) (tag_or_empty r) = None \<longrightarrow> handleMessage s (Some r) = s) \<and>
   (map_of (timers s) (tag_or_empty r) \<noteq> None \<longrightarrow>
      handleMessage (timeout s (tag_or_empty r)) (Some r) = timeout s (tag_or_empty r))"
proof (intro conjI impI)
  assume "map_of (callbacks s) (tag_or_empty r) = None"
  then show "handleMessage s (Some r) = s"
    by (simp add: handleMessage_def)
next
  assume armed: "map_of (timers s) (tag_or_empty r) \<noteq> None"
  have "callbacks (timeout s (tag_or_empty r)) = AList.delete (tag_or_empty r) (callbacks s)"
    unfolding timeout_callbacks using armed by (simp only: if_False)
  then have "map_of (callbacks (timeout s (tag_or_empty r))) (tag_or_empty r) = None"
    by (simp add: AList.delete_conv')
  then show "handleMessage (timeout s (tag_or_empty r)) (Some r) = timeout s (tag_or_empty r)"
    by (simp add: handleMessage_def)
qed

theorem reply_without_pending_command_discarded_witness:
  "map_of (callbacks open_session) (tag_or_empty (reply Done ''tag7'')) = None \<and>
   handleMessage open_session (Some (reply Done ''tag7'')) = open_session \<and>
   map_of (timers one_pending) (tag_or_empty (reply Done ''tag1'')) \<noteq> None \<and>
   handleMessage (timeout one_pending ''tag1'') (Some (reply Done ''tag1'')) =
     timeout one_pending ''tag1''"
proof -
  have 1: "map_of (callbacks open_session) (tag_or_empty (reply Done ''tag7'')) = None"
    by (simp add: open_session_def new_session_def)
  have 2: "map_of (timers one_pending) (tag_or_empty (reply Done ''tag1'')) \<noteq> None"
    by (simp add: one_pending_def open_session_def new_session_def eval_defs tag_of_1)
  have 3: "tag_or_empty (reply Done ''tag1'') = ''tag1''"
    by (simp add: tag_or_empty_def reply_def)
  from reply_without_pending_command_discarded [of open_session "reply Done ''tag7''"] 1
  have 4: "handleMessage open_session (Some (reply Done ''tag7'')) = open_session"
    by blast
  from reply_without_pending_command_discarded [of one_pending "reply Done ''tag1''"] 2
  have 5: "handleMessage (timeout one_pending ''tag1'') (Some (reply Done ''tag1'')) =
     timeout one_pending ''tag1''"
    unfolding 3 by blast
  from 1 2 4 5 show ?thesis by blast
qed

subsection \<open>C5: disconnect\<close>

text \<open>
  C5, as stated, fails. With one command pending, \<open>disconnect\<close> empties the pending set and
  the promise of the command is not rejected: it is pending after the call, and still
  pending after the timer of the command has fired and a reply for its tag has arrived.
\<close>

theorem disconnect_leaves_commands_pending:
  "callbacks one_pending = [(''tag1'', 0)] \<and> promise_state one_pending 0 = None \<and>
   callbacks (disconnect one_pending) = [] \<and>
   promise_state (disconnect one_pending) 0 = None \<and>
   promise_state (run (disconnect one_pending)
      [Timer ''tag1'', Message (Some (reply Done ''tag1''))]) 0 = None"
  by (simp add: one_pending_def open_session_def new_session_def eval_defs tag_of_1
        promise_state_def run_def)

text \<open>
  C5, amended. \<open>disconnect\<close> closes the socket when there is one and drops it, clears
  \<open>connected\<close>, and empties the pending set without settling any promise; a second call
  changes nothing. No frame, timer, command, \<open>close\<close> event or further \<open>disconnect\<close> after it
  changes the state of a promise made before it: a command pending at the call stays pending.
\<close>

theorem disconnect_clears_without_settling:
  "ws (disconnect s) = None \<and>
   closed (disconnect s) = closed s @ (case ws s of None \<Rightarrow> [] | Some u \<Rightarrow> [u]) \<and>
   \<not> connected (disconnect s) \<and> callbacks (disconnect s) = [] \<and>
   promises (disconnect s) = promises s \<and>
   disconnect (disconnect s) = disconnect s \<and>
   (\<forall>evs p. p < length (promises s) \<longrightarrow>
      promise_state (run (disconnect s) evs) p = promise_state s p)"
proof -
  have basic: "ws (disconnect s) = None"
    "closed (disconnect s) = closed s @ (case ws s of None \<Rightarrow> [] | Some u \<Rightarrow> [u])"
    "\<not> connected (disconnect s)" "callbacks (disconnect s) = []"
    "promises (disconnect s) = promises s"
    by (simp_all add: disconnect_def split: option.splits)
  have idem: "disconnect (disconnect s) = disconnect s"
    by (simp add: disconnect_def split: option.splits)
  have later: "promise_state (run (disconnect s) evs) p = promise_state s p"
    if "p < length (promises s)" for evs p
  proof -
    from run_after_disconnect [OF basic(4) basic(1), of evs] obtain xs where
      "promises (run (disconnect s) evs) = promises s @ xs"
      by (auto simp: basic(5))
    with that show ?thesis by (simp add: promise_state_def nth_append)
  qed
  from basic idem later show ?thesis by blast
qed

theorem disconnect_clears_without_settling_witness:
  "(0::nat) < length (promises one_pending) \<and>
   promise_state (run (disconnect one_pending) [Timer ''tag1'']) 0 = None \<and>
   callbacks (disconnect one_pending) = [] \<and>
   closed (disconnect one_pending) = [''ws://10.0.0.1:8729'']"
proof -
  have len: "(0::nat) < length (promises one_pending)"
    and pend: "promise_state one_pending 0 = None"
    and cl: "closed one_pending @ (case ws one_pending of None \<Rightarrow> [] | Some u \<Rightarrow> [u]) =
       [''ws://10.0.0.1:8729'']"
    by (simp_all add: one_pending_def open_session_def new_session_def eval_defs promise_state_def)
  from disconnect_clears_without_settling [of one_pending] len
  have "promise_state (run (disconnect one_pending) [Timer ''tag1'']) 0 = promise_state one_pending 0"
    and "callbacks (disconnect one_pending) = []"
    and "closed (disconnect one_pending) =
       closed one_pending @ (case ws one_pending of None \<Rightarrow> [] | Some u \<Rightarrow> [u])"
    by blast+
  with len pend cl show ?thesis by simp
qed

subsection \<open>C6: the order of the methods and the probe\<close>

text \<open>
  C6, as stated, fails. From a new manager, the socket fails and the REST service accepts the
  credentials, so the HTTP session is the first that authenticates; its probe is answered
  with status 500, and the manager's \<open>connect\<close> does not return a success. And from a manager
  whose WebSocket session has its flag set, the login is answered with done, so the
  WebSocket session authenticates; its probe is answered with a trap, and the manager does
  not stop there: it returns the success of the HTTP method.
\<close>

theorem authenticated_session_without_success:
  "fst (http_connect (httpApi new_manager) ''10.0.0.1'' ''admin'' ''secret'' 80 False
          (http_open rest_probe_fails)) = Resolved True \<and>
   fst (manager_connect new_manager ''10.0.0.1'' ''admin'' ''secret'' None False rest_probe_fails) =
     Some (Rejected wsError_not_defined) \<and>
   fst (connect (wsApi flagged_manager) ''10.0.0.1'' ''admin'' ''secret'' 8728
     (ws_open ws_probe_trap)) = Some (Resolved True) \<and>
   fst (manager_connect flagged_manager ''10.0.0.1'' ''admin'' ''secret'' None False
     ws_probe_trap) =
     Some (Resolved \<lparr>success = True, connect_method = Some ''HTTP REST API'', error = None,
                      systemInfo = Some resource\<rparr>)"
  using rest_probe_fails_eval ws_probe_trap_eval by simp

text \<open>
  C6, amended. The WebSocket method is tried first. When its \<open>connect\<close> resolves with \<open>true\<close> and
  its probe \<open>getSystemResource\<close> resolves, the manager returns the success of the WebSocket
  method with the probe's result, selects that method, and the REST client is not used.
  When its \<open>connect\<close> resolves with \<open>false\<close> or rejects, or its probe rejects, and then the REST
  client's \<open>connect\<close> resolves with \<open>true\<close> and its probe resolves, the manager returns the
  success of the HTTP method with that probe's result and selects that method.
\<close>

theorem connect_tries_websocket_then_http:
  "(let c = connect (wsApi m) h u pw (port_or prt 8728) (ws_open net);
        g = getSystemResource (snd c) (ws_probe net);
        hc = http_connect (httpApi m) h u pw (port_or prt 80) useHttps (http_open net);
        hg = http_getSystemResource (snd hc) (http_probe net);
        result = manager_connect m h u pw prt useHttps net
    in (fst c = Some (Resolved True) \<and> fst g = Some (Resolved info) \<longrightarrow>
          fst result = Some (Resolved \<lparr>success = True, connect_method = Some ''WebSocket API'',
                                       error = None, systemInfo = Some info\<rparr>) \<and>
          currentApi (snd result) = Some WS \<and> httpApi (snd result) = httpApi m) \<and>
       ((fst c = Some (Resolved False) \<or> (\<exists>e. fst c = Some (Rejected e)) \<or>
         (fst c = Some (Resolved True) \<and> (\<exists>e. fst g = Some (Rejected e)))) \<and>
        fst hc = Resolved True \<and> fst hg = Resolved info \<longrightarrow>
          fst result = Some (Resolved \<lparr>success = True, connect_method = Some ''HTTP REST API'',
                                       error = None, systemInfo = Some info\<rparr>) \<and>
          currentApi (snd result) = Some HTTP))"
proof -
  define c where "c = connect (wsApi m) h u pw (port_or prt 8728) (ws_open net)"
  define g where "g = getSystemResource (snd c) (ws_probe net)"
  define hc where "hc = http_connect (httpApi m) h u pw (port_or prt 80) useHttps (http_open net)"
  define hg where "hg = http_getSystemResource (snd hc) (http_probe net)"
  define result where "result = manager_connect m h u pw prt useHttps net"
  have ws: "fst result = Some (Resolved \<lparr>success = True, connect_method = Some ''WebSocket API'',
                                       error = None, systemInfo = Some info\<rparr>) \<and>
          currentApi (snd result) = Some WS \<and> httpApi (snd result) = httpApi m"
    if "fst c = Some (Resolved True)" "fst g = Some (Resolved info)"
    using that by (simp add: result_def manager_connect_alt Let_def c_def g_def)
  have fb: "fst (http_fallback m h u pw prt useHttps net) =
        Resolved \<lparr>success = True, connect_method = Some ''HTTP REST API'',
                                       error = None, systemInfo = Some info\<rparr>"
    if "fst hc = Resolved True" "fst hg = Resolved info"
    using that by (simp add: http_fallback_fst hc_def hg_def)
  have cur: "currentApi (snd (http_fallback m' h u pw prt useHttps net)) = Some HTTP"
    if "fst hc = Resolved True" "httpApi m' = httpApi m" for m'
    using that by (simp add: http_fallback_currentApi hc_def)
  have http: "fst result = Some (Resolved \<lparr>success = True, connect_method = Some ''HTTP REST API'',
                                       error = None, systemInfo = Some info\<rparr>) \<and>
          currentApi (snd result) = Some HTTP"
    if w: "fst c = Some (Resolved False) \<or> (\<exists>e. fst c = Some (Rejected e)) \<or>
         (fst c = Some (Resolved True) \<and> (\<exists>e. fst g = Some (Rejected e)))"
      and h: "fst hc = Resolved True" "fst hg = Resolved info"
    using w fb [OF h] cur [OF h(1)]
    by (auto simp: result_def manager_connect_alt Let_def c_def [symmetric] g_def [symmetric])
  from ws http show ?thesis
    unfolding Let_def c_def [symmetric] g_def [symmetric] hc_def [symmetric] hg_def [symmetric]
      result_def [symmetric]
    by blast
qed

theorem connect_tries_websocket_then_http_witness:
  "fst (connect (wsApi flagged_manager) ''10.0.0.1'' ''admin'' ''secret'' (port_or None 8728)
          (ws_open ws_works)) = Some (Resolved True) \<and>
   fst (manager_connect flagged_manager ''10.0.0.1'' ''admin'' ''secret'' None False ws_works) =
     Some (Resolved \<lparr>success = True, connect_method = Some ''WebSocket API'', error = None,
                      systemInfo = Some resource\<rparr>) \<and>
   httpApi (snd (manager_connect flagged_manager ''10.0.0.1'' ''admin'' ''secret'' None False
      ws_works)) = httpApi flagged_manager \<and>
   fst (connect (wsApi new_manager) ''10.0.0.1'' ''admin'' ''secret'' (port_or None 8728)
          (ws_open rest_only)) = Some (Rejected (Error ''WebSocket connection failed'')) \<and>
   fst (manager_connect new_manager ''10.0.0.1'' ''admin'' ''secret'' None False rest_only) =
     Some (Resolved \<lparr>success = True, connect_method = Some ''HTTP REST API'', error = None,
                      systemInfo = Some resource\<rparr>) \<and>
   currentApi (snd (manager_connect new_manager ''10.0.0.1'' ''admin'' ''secret'' None False
      rest_only)) = Some HTTP"
proof -
  have p: "port_or None 8728 = 8728" "port_or None 80 = 80" by (simp_all add: port_or_def)
  have c1: "fst (connect (wsApi flagged_manager) ''10.0.0.1'' ''admin'' ''secret''
          (port_or None 8728) (ws_open ws_works)) = Some (Resolved True)"
    and g1: "fst (getSystemResource
       (snd (connect (wsApi flagged_manager) ''10.0.0.1'' ''admin'' ''secret''
          (port_or None 8728) (ws_open ws_works))) (ws_probe ws_works)) = Some (Resolved resource)"
    unfolding p using ws_works_eval by simp_all
  from connect_tries_websocket_then_http [of flagged_manager "''10.0.0.1''" "''admin''"
      "''secret''" None ws_works False resource] c1 g1
  have 1: "fst (manager_connect flagged_manager ''10.0.0.1'' ''admin'' ''secret'' None False
       ws_works) =
     Some (Resolved \<lparr>success = True, connect_method = Some ''WebSocket API'', error = None,
                      systemInfo = Some resource\<rparr>) \<and>
   httpApi (snd (manager_connect flagged_manager ''10.0.0.1'' ''admin'' ''secret'' None False
      ws_works)) = httpApi flagged_manager"
    unfolding Let_def by blast
  have c2: "fst (connect (wsApi new_manager) ''10.0.0.1'' ''admin'' ''secret'' (port_or None 8728)
          (ws_open rest_only)) = Some (Rejected (Error ''WebSocket connection failed''))"
    and h2: "fst (http_connect (httpApi new_manager) ''10.0.0.1'' ''admin'' ''secret''
          (port_or None 80) False (http_open rest_only)) = Resolved True"
    and hg2: "fst (http_getSystemResource
       (snd (http_connect (httpApi new_manager) ''10.0.0.1'' ''admin'' ''secret''
          (port_or None 80) False (http_open rest_only))) (http_probe rest_only)) =
       Resolved resource"
    by (simp_all add: manager_eval rest_only_def)
  from connect_tries_websocket_then_http [of new_manager "''10.0.0.1''" "''admin''"
      "''secret''" None rest_only False resource] c2 h2 hg2
  have 2: "fst (manager_connect new_manager ''10.0.0.1'' ''admin'' ''secret'' None False rest_only) =
     Some (Resolved \<lparr>success = True, connect_method = Some ''HTTP REST API'', error = None,
                      systemInfo = Some resource\<rparr>) \<and>
   currentApi (snd (manager_connect new_manager ''10.0.0.1'' ''admin'' ''secret'' None False
      rest_only)) = Some HTTP"
    unfolding Let_def by blast
  from c1 1 c2 2 show ?thesis by blast
qed

subsection \<open>C7: every method fails\<close>

text \<open>
  C7 is what the code attempts and misses. From a new manager, the socket fires its
  \<open>error\<close> event, so \<open>RouterOSAPI.connect\<close> rejects, and \<open>fetch\<close> throws, so the REST client's
  \<open>connect\<close> rejects. The manager's \<open>connect\<close> returns no failure result that holds the two
  errors: its promise is rejected with the error that \<open>wsError\<close> is not defined.
\<close>

theorem all_methods_fail_gives_reference_error:
  "fst (connect (wsApi new_manager) ''10.0.0.1'' ''admin'' ''secret'' 8728 (ws_open unreachable)) =
     Some (Rejected (Error ''WebSocket connection failed'')) \<and>
   fst (http_connect (httpApi new_manager) ''10.0.0.1'' ''admin'' ''secret'' 80 False
          (http_open unreachable)) =
     Rejected (Error ''Connection failed: TypeError: Failed to fetch'') \<and>
   fst (manager_connect new_manager ''10.0.0.1'' ''admin'' ''secret'' None False unreachable) =
     Some (Rejected wsError_not_defined)"
  using unreachable_eval by simp

subsection \<open>C8: a trap or fatal reply rejects the command\<close>

text \<open>
  C8, as stated, fails: the code has no kind of error for a failed command. The callback
  rejects with \<open>new Error(...)\<close>, as the timer and the check of \<open>connected\<close> do. With one command
  pending, a trap reply whose message is \<open>Command timeout\<close> rejects the command with the very
  error with which its timer rejects it, so nothing but the text of the message tells a
  failed command from one that timed out.
\<close>

theorem failed_command_error_has_no_kind:
  "promise_state one_pending 0 = None \<and>
   promise_state
     (handleMessage one_pending (Some ((reply Trap ''tag1'')\<lparr>message := Some ''Command timeout''\<rparr>))) 0 =
     Some (Rejected (JsError ''Error'' ''Command timeout'')) \<and>
   promise_state (timeout one_pending ''tag1'') 0 =
     Some (Rejected (JsError ''Error'' ''Command timeout''))"
  by (simp add: one_pending_def open_session_def new_session_def eval_defs tag_of_1
        promise_state_def)

text \<open>
  C8, amended. A command is sent and the socket accepts its frame; data replies arrive, and
  then a reply of type trap or fatal that bears the tag of the command. The command is
  rejected with a plain \<open>Error\<close>, whose message is the \<open>message\<close> of the reply when it has a
  non-empty one and \<open>Command failed\<close> otherwise, and its tag is no longer pending. A reply of
  type trap or fatal retires the tag it bears in every state.
\<close>

theorem trap_or_fatal_rejects_with_plain_error:
  assumes "ws s \<noteq> None" and "connected s" and "readyState s \<noteq> CONNECTING"
    and "\<forall>d \<in> set ds. rtype d = Data"
    and "tag_or_empty r = tag_of (js_incr (tagCounter s))"
    and "rtype r = Trap \<or> rtype r = Fatal"
  shows
    "fst (command_outcome s c (map (\<lambda>d. Message (Some d)) ds @ Message (Some r) # evs)) =
       Some (Rejected (JsError ''Error''
         (case message r of None \<Rightarrow> ''Command failed''
          | Some m \<Rightarrow> if m = [] then ''Command failed'' else m))) \<and>
     (\<forall>m. message r = Some m \<and> m \<noteq> [] \<longrightarrow>
        fst (command_outcome s c (map (\<lambda>d. Message (Some d)) ds @ Message (Some r) # evs)) =
          Some (Rejected (JsError ''Error'' m))) \<and>
     map_of (callbacks (snd (sendCommand s c))) (tag_or_empty r) = Some (length (promises s)) \<and>
     map_of (callbacks (snd (command_outcome s c
        (map (\<lambda>d. Message (Some d)) ds @ Message (Some r) # evs)))) (tag_or_empty r) = None \<and>
     map_of (callbacks (handleMessage s' (Some r))) (tag_or_empty r) = None"
proof -
  let ?evs = "map (\<lambda>d. Message (Some d)) ds @ Message (Some r) # evs"
  have tr: "terminal r" using assms(6) by (auto simp: terminal_def)
  have nd: "rtype r \<noteq> Done" using assms(6) by auto
  have out: "fst (command_outcome s c ?evs) =
       Some (Rejected (JsError ''Error'' (message_or_default r)))"
    and st: "snd (command_outcome s c ?evs) = handleMessage (snd (sendCommand s c)) (Some r)"
    using command_outcome_replied [OF assms(1-5) tr, of c evs] nd by simp_all
  have 1: "fst (command_outcome s c ?evs) =
       Some (Rejected (JsError ''Error''
         (case message r of None \<Rightarrow> ''Command failed''
          | Some m \<Rightarrow> if m = [] then ''Command failed'' else m)))"
    using out by (simp add: message_or_default_def)
  have 2: "\<forall>m. message r = Some m \<and> m \<noteq> [] \<longrightarrow>
        fst (command_outcome s c ?evs) = Some (Rejected (JsError ''Error'' m))"
    using out by (simp add: message_or_default_def)
  have 3: "map_of (callbacks (snd (sendCommand s c))) (tag_or_empty r) = Some (length (promises s))"
    using assms(1-3,5) by (simp add: sendCommand_accepted AList.update_conv')
  have gone: "map_of (callbacks (handleMessage x (Some r))) (tag_or_empty r) = None" for x
    using tr by (simp add: handleMessage_callbacks AList.delete_conv')
  have 4: "map_of (callbacks (snd (command_outcome s c ?evs))) (tag_or_empty r) = None"
    unfolding st by (rule gone)
  from 1 2 3 4 gone [of s'] show ?thesis by blast
qed

theorem trap_or_fatal_rejects_with_plain_error_witness:
  "ws open_session \<noteq> None \<and> connected open_session \<and> readyState open_session \<noteq> CONNECTING \<and>
   rtype ((reply Data ''tag1'')\<lparr>data := ether1\<rparr>) = Data \<and>
   tag_or_empty no_such_user = tag_of (js_incr (tagCounter open_session)) \<and>
   rtype no_such_user = Trap \<and> message no_such_user = Some ''no such item'' \<and>
   fst (command_outcome open_session print_interfaces
      [Message (Some ((reply Data ''tag1'')\<lparr>data := ether1\<rparr>)), Message (Some no_such_user)]) =
     Some (Rejected (JsError ''Error'' ''no such item'')) \<and>
   map_of (callbacks (snd (sendCommand open_session print_interfaces))) ''tag1'' = Some 0 \<and>
   map_of (callbacks (snd (command_outcome open_session print_interfaces
      [Message (Some ((reply Data ''tag1'')\<lparr>data := ether1\<rparr>)), Message (Some no_such_user)])))
     ''tag1'' = None"
proof -
  let ?d = "(reply Data ''tag1'')\<lparr>data := ether1\<rparr>"
  have d: "rtype ?d = Data" by (simp add: reply_def)
  then have ds: "\<forall>d \<in> set [?d]. rtype d = Data" by simp
  have tg: "tag_or_empty no_such_user = ''tag1''"
    by (simp add: no_such_user_def tag_or_empty_def reply_def)
  have t: "tag_or_empty no_such_user = tag_of (js_incr (tagCounter open_session))"
    by (simp add: tg open_session_tag)
  have ty: "rtype no_such_user = Trap" by (simp add: no_such_user_def)
  have msg: "message no_such_user = Some ''no such item''"
    by (simp add: no_such_user_def)
  have len: "length (promises open_session) = 0"
    by (simp add: open_session_def new_session_def)
  from trap_or_fatal_rejects_with_plain_error [OF open_session_connected ds t, of
      print_interfaces "[]" open_session] ty msg
  have "fst (command_outcome open_session print_interfaces
      [Message (Some ?d), Message (Some no_such_user)]) =
     Some (Rejected (JsError ''Error'' ''no such item'')) \<and>
   map_of (callbacks (snd (sendCommand open_session print_interfaces))) ''tag1'' = Some 0 \<and>
   map_of (callbacks (snd (command_outcome open_session print_interfaces
      [Message (Some ?d), Message (Some no_such_user)]))) ''tag1'' = None"
    by (simp add: tg len)
  with open_session_connected d t ty msg show ?thesis by blast
qed

subsection \<open>C9: isConnected of the manager\<close>

text \<open>
  C9, as stated, fails. A new manager connects over REST; then \<open>connect\<close> is called again with
  a password that the router refuses with status 401. The second call fails, the selected
  method is still HTTP, the REST client holds the refused password, and \<open>isConnected\<close> is
  \<open>true\<close>.
\<close>

theorem isConnected_true_after_refusal:
  "getCurrentMethod after_refusal = Some HTTP \<and>
   http_password (httpApi after_refusal) = ''wrong'' \<and>
   fst (http_connect (httpApi after_rest_connect) ''10.0.0.1'' ''admin'' ''wrong'' 80 False
          (http_open rest_refuses)) =
     Rejected (Error ''Connection failed: Error: HTTP 401: Unauthorized'') \<and>
   fst (manager_connect after_rest_connect ''10.0.0.1'' ''admin'' ''wrong'' None False rest_refuses) =
     Some (Rejected wsError_not_defined) \<and>
   manager_isConnected after_refusal"
  using after_refusal_eval by (simp add: getCurrentMethod_def manager_isConnected_def)

text \<open>
  C9, amended. When the selected method is the WebSocket one, \<open>isConnected\<close> of the manager is
  the \<open>connected\<close> flag of the WebSocket session. When it is HTTP, \<open>isConnected\<close> is \<open>true\<close>
  whatever the state of the REST client. When no method is selected it is \<open>false\<close>.
\<close>

theorem isConnected_by_method:
  "(currentApi m = Some WS \<longrightarrow> manager_isConnected m = connected (wsApi m)) \<and>
   (currentApi m = Some HTTP \<longrightarrow> manager_isConnected (m\<lparr>httpApi := a\<rparr>)) \<and>
   (currentApi m = None \<longrightarrow> \<not> manager_isConnected m)"
  by (simp add: manager_isConnected_def isConnected_def)

theorem isConnected_by_method_witness:
  "currentApi (flagged_manager\<lparr>currentApi := Some WS\<rparr>) = Some WS \<and>
   manager_isConnected (flagged_manager\<lparr>currentApi := Some WS\<rparr>) \<and>
   currentApi (manager_disconnect (flagged_manager\<lparr>currentApi := Some WS\<rparr>)) = None \<and>
   manager_isConnected (manager_disconnect (flagged_manager\<lparr>currentApi := Some WS\<rparr>)) = False \<and>
   currentApi after_refusal = Some HTTP \<and>
   manager_isConnected (after_refusal\<lparr>httpApi := new_http\<rparr>)"
proof -
  let ?m = "flagged_manager\<lparr>currentApi := Some WS\<rparr>"
  have a: "currentApi ?m = Some WS" "connected (wsApi ?m)"
    by (simp_all add: flagged_manager_def open_session_def)
  have b: "currentApi (manager_disconnect ?m) = None"
    by (simp add: manager_disconnect_def)
  have c: "currentApi after_refusal = Some HTTP" by (rule after_refusal_eval)
  from isConnected_by_method [of ?m] a have 1: "manager_isConnected ?m" by blast
  from isConnected_by_method [of "manager_disconnect ?m"] b
  have 2: "manager_isConnected (manager_disconnect ?m) = False" by blast
  from isConnected_by_method [of after_refusal new_http] c
  have 3: "manager_isConnected (after_refusal\<lparr>httpApi := new_http\<rparr>)" by blast
  from a(1) 1 b 2 c 3 show ?thesis by blast
qed

subsection \<open>C10: the mutating operations return a boolean\<close>



end
